theory Spec2Isabelle
  imports Complex_Main "HOL-Library.Multiset"
begin

section \<open>The data-access layer of the crypto price tracker (services/cryptoAPI.ts)\<close>

text \<open>
  The module keeps a process-wide cache, talks to the network through \<open>fetch\<close>, waits with
  \<open>setTimeout\<close>, reads \<open>Date.now()\<close> and draws from \<open>Math.random()\<close>. The model makes
  each of these explicit: what the platform answers is an environment \<open>env\<close> (an oracle),
  what the module changes is a \<open>world\<close> that every operation takes and returns.
  JavaScript numbers are modelled as reals (exact arithmetic); the clock, the delays and
  the loop counters, which only ever hold integers, as \<open>int\<close> and \<open>nat\<close>.
  Not modelled: the request options and headers of \<open>fetchWithRetry\<close> (no lookup passes
  any), what is written to the console, and the two generators without a network path
  (\<open>fetchOnChainData\<close>, \<open>fetchCryptoNews\<close>).
\<close>

subsection \<open>JavaScript values\<close>

text \<open>
  What \<open>response.json()\<close> yields, what the cache stores (\<open>data: any\<close>) and what the lookups
  return. \<open>NaN\<close> is the number that is no real.
\<close>

datatype js =
    Undefined
  | Null
  | Bool bool
  | Num real
  | NaN
  | Str string
  | Arr "js list"
  | Obj "(string \<times> js) list"

text \<open>ToBoolean: what \<open>if (cached)\<close> and \<open>data.tickers || []\<close> test.\<close>

fun truthy :: "js \<Rightarrow> bool" where
  "truthy Undefined = False"
| "truthy Null = False"
| "truthy (Bool b) = b"
| "truthy (Num x) = (x \<noteq> 0)"
| "truthy NaN = False"
| "truthy (Str s) = (s \<noteq> [])"
| "truthy (Arr xs) = True"
| "truthy (Obj kvs) = True"

text \<open>Exceptions the module raises or meets.\<close>

datatype exn =
    NetworkError
  | BodyError
  | SyntaxError
  | TypeError
  | Error string

subsection \<open>Responses, the environment and the world\<close>

text \<open>
  A \<open>Response\<close>: its status, what \<open>await response.text()\<close> gives (\<open>None\<close>: reading the body
  rejects) and what \<open>await response.json()\<close> gives (\<open>None\<close>: reading or parsing rejects).
  \<open>response.ok\<close> is, by the Fetch standard, the status being in 200..299.
\<close>

record response =
  status :: int
  text_body :: "string option"
  json_body :: "js option"

definition ok :: "response \<Rightarrow> bool" where
  "ok r = (200 \<le> status r \<and> status r \<le> 299)"

datatype outcome = Resolved response | Rejected exn

datatype event = Fetched string | Slept int

text \<open>
  The environment: the configured base URL, the network's answer to a fetch of a URL after
  a given history, how long that fetch takes (ms), the values of \<open>Math.random()\<close> in
  the order they are drawn, and two functions of the platform that the module calls:
  \<open>new Date(t).toISOString()\<close> and \<open>String.prototype.toUpperCase\<close> (which maps every
  letter of Unicode, not only the ASCII ones).
\<close>

record env =
  API_BASE_URL :: string
  net :: "event list \<Rightarrow> string \<Rightarrow> outcome"
  latency :: "event list \<Rightarrow> nat"
  rnd :: "nat \<Rightarrow> real"
  toISOString :: "int \<Rightarrow> string"
  toUpperCase :: "string \<Rightarrow> string"

record entry =
  data :: js
  timestamp :: int
  ttl :: int

text \<open>
  The world: the module's \<open>cache\<close> map, the clock \<open>Date.now()\<close>, the network calls and
  sleeps made so far, and how many random numbers were drawn.
\<close>

record world =
  cache :: "string \<Rightarrow> entry option"
  now :: int
  trace :: "event list"
  draws :: nat

definition fetch :: "env \<Rightarrow> string \<Rightarrow> world \<Rightarrow> outcome \<times> world" where
  "fetch E url w =
     (net E (trace w) url,
      w\<lparr>now := now w + int (latency E (trace w)), trace := trace w @ [Fetched url]\<rparr>)"

text \<open>\<open>await delay(ms)\<close>: the timer of \<open>setTimeout\<close>.\<close>

definition delay :: "int \<Rightarrow> world \<Rightarrow> world" where
  "delay ms w = w\<lparr>now := now w + ms, trace := trace w @ [Slept ms]\<rparr>"

definition random :: "env \<Rightarrow> world \<Rightarrow> real \<times> world" where
  "random E w = (rnd E (draws w), w\<lparr>draws := Suc (draws w)\<rparr>)"

subsection \<open>fetchWithRetry\<close>

text \<open>\<open>Math.min(1000 * Math.pow(2, attempt), 10000)\<close>, written twice in the source.\<close>

definition backoffDelay :: "nat \<Rightarrow> int" where
  "backoffDelay attempt = min (1000 * 2 ^ attempt) 10000"

text \<open>
  The \<open>for\<close> loop of \<open>fetchWithRetry\<close> from a given \<open>attempt\<close> on. \<open>Inr\<close> is the returned
  response, \<open>Inl\<close> the exception thrown. The \<open>catch\<close> block covers the whole \<open>try\<close>, so it
  also receives a rejection of \<open>response.text()\<close>.
\<close>

function fetchWithRetry_loop ::
  "env \<Rightarrow> string \<Rightarrow> int \<Rightarrow> nat \<Rightarrow> world \<Rightarrow> (exn + response) \<times> world" where
  "fetchWithRetry_loop E url retries attempt w =
     (if int attempt \<le> retries then
        (case fetch E url w of
           (Resolved r, w1) \<Rightarrow>
             if ok r \<or> (400 \<le> status r \<and> status r < 500) then (Inr r, w1)
             else if int attempt < retries \<and> (500 \<le> status r \<or> status r = 429) then
               fetchWithRetry_loop E url retries (Suc attempt) (delay (backoffDelay attempt) w1)
             else
               (case text_body r of
                  Some errorBody \<Rightarrow> (Inr r, w1)
                | None \<Rightarrow>
                    if int attempt < retries then
                      fetchWithRetry_loop E url retries (Suc attempt)
                        (delay (backoffDelay attempt) w1)
                    else (Inl BodyError, w1))
         | (Rejected e, w1) \<Rightarrow>
             if int attempt < retries then
               fetchWithRetry_loop E url retries (Suc attempt) (delay (backoffDelay attempt) w1)
             else (Inl e, w1))
      else (Inl (Error ''Max retries exceeded''), w))"
  by pat_completeness auto
termination
  by (relation "measure (\<lambda>(E, url, retries, attempt, w). nat (retries + 1 - int attempt))") auto

definition fetchWithRetry :: "env \<Rightarrow> string \<Rightarrow> int \<Rightarrow> world \<Rightarrow> (exn + response) \<times> world" where
  "fetchWithRetry E url retries w = fetchWithRetry_loop E url retries 0 w"

subsection \<open>The cache\<close>

definition getCachedData :: "string \<Rightarrow> world \<Rightarrow> js \<times> world" where
  "getCachedData key w =
     (case cache w key of
        Some cached \<Rightarrow>
          if now w - timestamp cached < ttl cached then (data cached, w)
          else (Null, w\<lparr>cache := (cache w)(key := None)\<rparr>)
      | None \<Rightarrow> (Null, w\<lparr>cache := (cache w)(key := None)\<rparr>))"

definition setCachedData :: "string \<Rightarrow> js \<Rightarrow> int \<Rightarrow> world \<Rightarrow> world" where
  "setCachedData key d t w =
     w\<lparr>cache := (cache w)(key \<mapsto> \<lparr>data = d, timestamp = now w, ttl = t\<rparr>)\<rparr>"

subsection \<open>Reading parsed JSON, strings\<close>

text \<open>An own property of an object; \<open>undefined\<close> when there is none.\<close>

definition field :: "string \<Rightarrow> js \<Rightarrow> js" where
  "field k x =
     (case x of
        Obj kvs \<Rightarrow> (case map_of kvs k of Some v \<Rightarrow> v | None \<Rightarrow> Undefined)
      | _ \<Rightarrow> Undefined)"

text \<open>
  \<open>x.k\<close> for the keys the module reads from a payload (\<open>tickers\<close>, \<open>prices\<close>,
  \<open>total_volumes\<close>, \<open>market_caps\<close>), which no prototype defines: a TypeError on \<open>null\<close> and
  \<open>undefined\<close>, the own property otherwise.
\<close>

definition getProp :: "js \<Rightarrow> string \<Rightarrow> exn + js" where
  "getProp x k =
     (case x of Undefined \<Rightarrow> Inl TypeError | Null \<Rightarrow> Inl TypeError | _ \<Rightarrow> Inr (field k x))"

text \<open>\<open>x.map\<close> is callable only on an array (a parsed payload holds no function).\<close>

definition asArray :: "js \<Rightarrow> exn + js list" where
  "asArray x = (case x of Arr xs \<Rightarrow> Inr xs | _ \<Rightarrow> Inl TypeError)"

text \<open>The decimal numeral of a natural number, as \<open>String(i)\<close> and \<open>${n}\<close> print it.\<close>

fun decimal :: "nat \<Rightarrow> string" where
  "decimal n =
     (if n < 10 then [''0123456789'' ! n] else decimal (n div 10) @ [''0123456789'' ! (n mod 10)])"

text \<open>\<open>x[i]\<close> on a value that is neither \<open>null\<close> nor \<open>undefined\<close>, and \<open>x?.[i]\<close>.\<close>

definition elemAt :: "js \<Rightarrow> nat \<Rightarrow> js" where
  "elemAt x i =
     (case x of
        Arr xs \<Rightarrow> if i < length xs then xs ! i else Undefined
      | Str s \<Rightarrow> if i < length s then Str [s ! i] else Undefined
      | Obj kvs \<Rightarrow> field (decimal i) x
      | _ \<Rightarrow> Undefined)"

definition optElemAt :: "js \<Rightarrow> nat \<Rightarrow> js" where
  "optElemAt x i = (case x of Undefined \<Rightarrow> Undefined | Null \<Rightarrow> Undefined | _ \<Rightarrow> elemAt x i)"

text \<open>\<open>a || b\<close>.\<close>

definition orElse :: "js \<Rightarrow> js \<Rightarrow> js" where
  "orElse a b = (if truthy a then a else b)"

text \<open>
  An array pattern of \<open>n\<close> variables, \<open>([a, b, ...]) =>\<close>: the value must be iterable (an
  array or a string), missing positions are \<open>undefined\<close>.
\<close>

definition destructure :: "nat \<Rightarrow> js \<Rightarrow> exn + js list" where
  "destructure n x =
     (case x of
        Arr xs \<Rightarrow> Inr (map (\<lambda>i. if i < length xs then xs ! i else Undefined) [0..<n])
      | Str s \<Rightarrow> Inr (map (\<lambda>i. if i < length s then Str [s ! i] else Undefined) [0..<n])
      | _ \<Rightarrow> Inl TypeError)"

text \<open>\<open>${x}\<close> in a template literal, for the values it is applied to here.\<close>

definition stringOf :: "js \<Rightarrow> string" where
  "stringOf x = (case x of Str s \<Rightarrow> s | Null \<Rightarrow> ''null'' | _ \<Rightarrow> ''undefined'')"

text \<open>\<open>x * k\<close>: \<open>undefined\<close> converts to \<open>NaN\<close>, \<open>null\<close> to 0.\<close>

definition times :: "js \<Rightarrow> real \<Rightarrow> js" where
  "times x k = (case x of Num v \<Rightarrow> Num (v * k) | Null \<Rightarrow> Num 0 | _ \<Rightarrow> NaN)"

text \<open>\<open>ids.join(',')\<close>.\<close>

fun join :: "string \<Rightarrow> string list \<Rightarrow> string" where
  "join sep [] = []"
| "join sep [x] = x"
| "join sep (x # y # ys) = x @ sep @ join sep (y # ys)"

subsection \<open>Timeframes\<close>

datatype ChartTimeframe = Tf_1h | Tf_24h | Tf_7d | Tf_30d | Tf_90d | Tf_1y | Tf_all

datatype ComparisonAsset = Usd | Btc | Eth

fun timeframeStr :: "ChartTimeframe \<Rightarrow> string" where
  "timeframeStr Tf_1h = ''1h''"
| "timeframeStr Tf_24h = ''24h''"
| "timeframeStr Tf_7d = ''7d''"
| "timeframeStr Tf_30d = ''30d''"
| "timeframeStr Tf_90d = ''90d''"
| "timeframeStr Tf_1y = ''1y''"
| "timeframeStr Tf_all = ''all''"

fun comparisonStr :: "ComparisonAsset \<Rightarrow> string" where
  "comparisonStr Usd = ''usd''"
| "comparisonStr Btc = ''btc''"
| "comparisonStr Eth = ''eth''"

text \<open>What \<open>getTimeframeDays\<close> returns: a number of days, or the string \<open>'max'\<close>.\<close>

datatype days = Days nat | Max

fun getTimeframeDays :: "ChartTimeframe \<Rightarrow> days" where
  "getTimeframeDays Tf_1h = Days 1"
| "getTimeframeDays Tf_24h = Days 1"
| "getTimeframeDays Tf_7d = Days 7"
| "getTimeframeDays Tf_30d = Days 30"
| "getTimeframeDays Tf_90d = Days 90"
| "getTimeframeDays Tf_1y = Days 365"
| "getTimeframeDays Tf_all = Max"

text \<open>\<open>days <= k\<close> (\<open>'max'\<close> converts to \<open>NaN\<close>, which compares false) and \<open>${days}\<close>.\<close>

fun daysLe :: "days \<Rightarrow> nat \<Rightarrow> bool" where
  "daysLe (Days n) k = (n \<le> k)"
| "daysLe Max k = False"

fun daysStr :: "days \<Rightarrow> string" where
  "daysStr (Days n) = decimal n"
| "daysStr Max = ''max''"

subsection \<open>The mock data generators\<close>

text \<open>The object literal \<open>mockData\<close> of \<open>generateMockData\<close>: its own properties.\<close>

definition mockData :: "(string \<times> (string \<times> js) list) list" where
  "mockData =
     [(''bitcoin'',
        [(''id'', Str ''bitcoin''),
         (''symbol'', Str ''btc''),
         (''name'', Str ''Bitcoin''),
         (''current_price'', Num 43250),
         (''price_change_percentage_24h'', Num 2.45),
         (''price_change_percentage_7d'', Num 5.23),
         (''price_change_percentage_30d'', Num 12.45),
         (''market_cap'', Num 847000000000),
         (''market_cap_rank'', Num 1),
         (''fully_diluted_valuation'', Num 908000000000),
         (''total_volume'', Num 25000000000),
         (''circulating_supply'', Num 19600000),
         (''total_supply'', Num 19600000),
         (''max_supply'', Num 21000000),
         (''ath'', Num 69045),
         (''ath_date'', Str ''2021-11-10T14:24:11.849Z''),
         (''atl'', Num 67.81),
         (''atl_date'', Str ''2013-07-06T00:00:00.000Z''),
         (''image'', Str ''https://assets.coingecko.com/coins/images/1/large/bitcoin.png'')]),
      (''ethereum'',
        [(''id'', Str ''ethereum''),
         (''symbol'', Str ''eth''),
         (''name'', Str ''Ethereum''),
         (''current_price'', Num 2650),
         (''price_change_percentage_24h'', Num (- 1.23)),
         (''price_change_percentage_7d'', Num 3.45),
         (''price_change_percentage_30d'', Num 8.76),
         (''market_cap'', Num 318000000000),
         (''market_cap_rank'', Num 2),
         (''fully_diluted_valuation'', Num 318000000000),
         (''total_volume'', Num 15000000000),
         (''circulating_supply'', Num 120000000),
         (''total_supply'', Num 120000000),
         (''max_supply'', Null),
         (''ath'', Num 4878.26),
         (''ath_date'', Str ''2021-11-10T14:24:19.604Z''),
         (''atl'', Num 0.432979),
         (''atl_date'', Str ''2015-10-20T00:00:00.000Z''),
         (''image'', Str ''https://assets.coingecko.com/coins/images/279/large/ethereum.png'')]),
      (''solana'',
        [(''id'', Str ''solana''),
         (''symbol'', Str ''sol''),
         (''name'', Str ''Solana''),
         (''current_price'', Num 102.5),
         (''price_change_percentage_24h'', Num 5.67),
         (''price_change_percentage_7d'', Num 12.34),
         (''price_change_percentage_30d'', Num 25.67),
         (''market_cap'', Num 46000000000),
         (''market_cap_rank'', Num 5),
         (''fully_diluted_valuation'', Num 58000000000),
         (''total_volume'', Num 2500000000),
         (''circulating_supply'', Num 448000000),
         (''total_supply'', Num 565000000),
         (''max_supply'', Null),
         (''ath'', Num 259.96),
         (''ath_date'', Str ''2021-11-06T21:54:35.825Z''),
         (''atl'', Num 0.500801),
         (''atl_date'', Str ''2020-05-11T19:35:23.449Z''),
         (''image'', Str ''https://assets.coingecko.com/coins/images/4128/large/solana.png'')])]"

text \<open>
  \<open>mockData\<close> is a plain object, so \<open>mockData[id]\<close> also finds what every object inherits
  from \<open>Object.prototype\<close> (ECMAScript, Object.prototype and its Annex B accessors). Each of
  these is a function, \<open>__proto__\<close> the prototype object itself: truthy values with no own
  enumerable property.
\<close>

definition objectPrototypeKeys :: "string list" where
  "objectPrototypeKeys =
     [''constructor'', ''hasOwnProperty'', ''isPrototypeOf'', ''propertyIsEnumerable'',
      ''toLocaleString'', ''toString'', ''valueOf'', ''__proto__'', ''__defineGetter__'',
      ''__defineSetter__'', ''__lookupGetter__'', ''__lookupSetter__'']"

text \<open>
  \<open>generateMockData\<close>. The three cases of \<open>const crypto = mockData[id]\<close>: an own property
  (a profile, spread and completed with \<open>last_updated\<close>), an inherited one (truthy, so the
  placeholder branch \<open>if (!crypto)\<close> is skipped, and nothing to spread), or \<open>undefined\<close>
  (the placeholder).
\<close>

definition generateMockData :: "env \<Rightarrow> string list \<Rightarrow> world \<Rightarrow> js" where
  "generateMockData E ids w =
     Arr (map (\<lambda>ident.
       case map_of mockData ident of
         Some crypto \<Rightarrow> Obj (crypto @ [(''last_updated'', Str (toISOString E (now w)))])
       | None \<Rightarrow>
           if ident \<in> set objectPrototypeKeys
           then Obj [(''last_updated'', Str (toISOString E (now w)))]
           else Obj
             [(''id'', Str ident),
              (''symbol'', Str (toUpperCase E (take 3 ident))),
              (''name'', Str (toUpperCase E (take 1 ident) @ drop 1 ident)),
              (''current_price'', Num 1),
              (''price_change_percentage_24h'', Num 0),
              (''price_change_percentage_7d'', Num 0),
              (''price_change_percentage_30d'', Num 0),
              (''market_cap'', Num 1000000),
              (''market_cap_rank'', Num 999),
              (''fully_diluted_valuation'', Num 1000000),
              (''total_volume'', Num 100000),
              (''circulating_supply'', Num 1000000),
              (''total_supply'', Num 1000000),
              (''max_supply'', Num 1000000),
              (''ath'', Num 2),
              (''ath_date'', Str (toISOString E (now w))),
              (''atl'', Num 0.5),
              (''atl_date'', Str (toISOString E (now w))),
              (''image'', Str (''https://via.placeholder.com/32x32/6366f1/ffffff?text=''
                 @ toUpperCase E (take 1 ident))),
              (''last_updated'', Str (toISOString E (now w)))]) ids)"

text \<open>The own enumerable properties that \<open>{...x}\<close> copies.\<close>

definition ownProps :: "js \<Rightarrow> (string \<times> js) list" where
  "ownProps x = (case x of Obj kvs \<Rightarrow> kvs | _ \<Rightarrow> [])"

definition generateMockDetailedData :: "env \<Rightarrow> string \<Rightarrow> world \<Rightarrow> js" where
  "generateMockDetailedData E ident w =
     (let baseData = elemAt (generateMockData E [ident] w) 0 in
      Obj (ownProps baseData @
        [(''description'', Str (stringOf (field ''name'' baseData) @
            '' is a decentralized digital currency that enables instant payments to anyone, anywhere in the world.'')),
         (''homepage'', Arr [Str (''https://'' @ ident @ ''.org'')]),
         (''blockchain_site'', Arr [Str (''https://blockchair.com/'' @ ident)]),
         (''official_forum_url'', Arr [Str ''https://bitcointalk.org'']),
         (''chat_url'', Arr [Str (''https://t.me/'' @ ident)]),
         (''announcement_url'', Arr [Str (''https://bitcointalk.org/index.php?topic='' @ ident)]),
         (''twitter_screen_name'', Str ident),
         (''telegram_channel_identifier'', Str ident),
         (''subreddit_url'', Str (''https://reddit.com/r/'' @ ident)),
         (''repos_url'', Obj [(''github'', Arr [Str (''https://github.com/'' @ ident @ ''/'' @ ident)])]),
         (''contract_address'',
            if ident = ''ethereum'' then Undefined
            else Str ''0x1234567890123456789012345678901234567890''),
         (''genesis_date'', Str ''2009-01-03''),
         (''hashing_algorithm'', Str ''SHA-256''),
         (''categories'', Arr [Str ''Cryptocurrency'', Str ''Store of Value'']),
         (''market_data'', Obj
            [(''price_change_24h_in_currency'',
                Obj [(''usd'', times (field ''current_price'' baseData) 0.02)]),
             (''price_change_percentage_1h_in_currency'', Obj [(''usd'', Num 0.5)]),
             (''market_cap_change_24h_in_currency'',
                Obj [(''usd'', times (field ''market_cap'' baseData) 0.02)]),
             (''market_cap_change_percentage_24h_in_currency'', Obj [(''usd'', Num 2.1)])])]))"

definition generateMockExchanges :: js where
  "generateMockExchanges =
     Arr [Obj [(''id'', Str ''binance''),
               (''name'', Str ''Binance''),
               (''image'', Str ''https://assets.coingecko.com/markets/images/52/small/binance.jpg''),
               (''trust_score'', Num 10),
               (''trust_score_rank'', Num 1),
               (''trade_volume_24h_btc'', Num 150000),
               (''url'', Str ''https://www.binance.com'')],
          Obj [(''id'', Str ''coinbase-exchange''),
               (''name'', Str ''Coinbase Exchange''),
               (''image'', Str ''https://assets.coingecko.com/markets/images/23/small/Coinbase_Coin_Primary.png''),
               (''trust_score'', Num 10),
               (''trust_score_rank'', Num 2),
               (''trade_volume_24h_btc'', Num 80000),
               (''url'', Str ''https://pro.coinbase.com'')],
          Obj [(''id'', Str ''kraken''),
               (''name'', Str ''Kraken''),
               (''image'', Str ''https://assets.coingecko.com/markets/images/29/small/kraken.jpg''),
               (''trust_score'', Num 10),
               (''trust_score_rank'', Num 3),
               (''trade_volume_24h_btc'', Num 45000),
               (''url'', Str ''https://www.kraken.com'')]]"

definition generateMockTradingPairs :: "env \<Rightarrow> string \<Rightarrow> world \<Rightarrow> js" where
  "generateMockTradingPairs E coinId w =
     (let sym = (if coinId = ''bitcoin'' then ''BTC''
                 else if coinId = ''ethereum'' then ''ETH'' else ''SOL'') in
      Arr [Obj
        [(''base'', Str sym),
         (''target'', Str ''USDT''),
         (''market'', Obj [(''name'', Str ''Binance''), (''identifier'', Str ''binance''),
                          (''has_trading_incentive'', Bool False)]),
         (''last'', Num 43250),
         (''volume'', Num 125000000),
         (''converted_last'', Obj [(''btc'', Num 1), (''eth'', Num 16.3), (''usd'', Num 43250)]),
         (''converted_volume'',
            Obj [(''btc'', Num 2890), (''eth'', Num 47127), (''usd'', Num 125000000)]),
         (''trust_score'', Str ''green''),
         (''bid_ask_spread_percentage'', Num 0.01),
         (''timestamp'', Str (toISOString E (now w))),
         (''last_traded_at'', Str (toISOString E (now w))),
         (''last_fetch_at'', Str (toISOString E (now w))),
         (''is_anomaly'', Bool False),
         (''is_stale'', Bool False),
         (''trade_url'', Str (''https://www.binance.com/en/trade/'' @ sym @ ''_USDT''))]])"

text \<open>The number of points and their spacing (ms), shared by the two series generators.\<close>

definition mockPoints :: "ChartTimeframe \<Rightarrow> nat" where
  "mockPoints tf = (if tf = Tf_1h then 60 else if tf = Tf_24h then 24 else 168)"

definition mockInterval :: "ChartTimeframe \<Rightarrow> int" where
  "mockInterval tf =
     (if tf = Tf_1h then 60000 else if tf = Tf_24h then 3600000 else 3600000)"

text \<open>
  The \<open>for\<close> loop of \<open>generateMockChartData\<close> from index \<open>i\<close> on; \<open>t0\<close> is the \<open>now\<close> read
  before the loop, \<open>acc\<close> the array \<open>data\<close> so far.
\<close>

function generateMockChartData_loop ::
  "env \<Rightarrow> int \<Rightarrow> nat \<Rightarrow> int \<Rightarrow> nat \<Rightarrow> js list \<Rightarrow> world \<Rightarrow> js list \<times> world" where
  "generateMockChartData_loop E t0 points interval i acc w =
     (if i < points then
        (let ts = t0 - (int points - int i) * interval;
             (u1, w1) = random E w;
             price = 43000 + sin (real i * 0.1) * 2000 + u1 * 1000;
             (u2, w2) = random E w1;
             volume = u2 * 1000000000;
             mcap = price * 19600000
         in generateMockChartData_loop E t0 points interval (Suc i)
              (acc @ [Obj [(''timestamp'', Num (real_of_int ts)), (''price'', Num price),
                           (''volume'', Num volume), (''market_cap'', Num mcap)]]) w2)
      else (acc, w))"
  by pat_completeness auto
termination
  by (relation "measure (\<lambda>(E, t0, points, interval, i, acc, w). points - i)")
     (auto simp: random_def)

definition generateMockChartData :: "env \<Rightarrow> ChartTimeframe \<Rightarrow> world \<Rightarrow> js \<times> world" where
  "generateMockChartData E tf w =
     (let (xs, w') = generateMockChartData_loop E (now w) (mockPoints tf)
                       (mockInterval tf) 0 [] w
      in (Arr xs, w'))"

text \<open>The loop of \<open>generateMockCandlestickData\<close>, with its running \<open>lastClose\<close>.\<close>

function generateMockCandlestickData_loop ::
  "env \<Rightarrow> int \<Rightarrow> nat \<Rightarrow> int \<Rightarrow> nat \<Rightarrow> real \<Rightarrow> js list \<Rightarrow> world \<Rightarrow> js list \<times> world" where
  "generateMockCandlestickData_loop E t0 points interval i lastClose acc w =
     (if i < points then
        (let ts = t0 - (int points - int i) * interval;
             (u1, w1) = random E w;
             opn = lastClose + (u1 - 0.5) * 100;
             (u2, w2) = random E w1;
             high = opn + u2 * 500;
             (u3, w3) = random E w2;
             low = opn - u3 * 500;
             (u4, w4) = random E w3;
             cls = low + u4 * (high - low);
             (u5, w5) = random E w4;
             volume = u5 * 1000000
         in generateMockCandlestickData_loop E t0 points interval (Suc i) cls
              (acc @ [Obj [(''timestamp'', Num (real_of_int ts)), (''open'', Num opn),
                           (''high'', Num high), (''low'', Num low), (''close'', Num cls),
                           (''volume'', Num volume)]]) w5)
      else (acc, w))"
  by pat_completeness auto
termination
  by (relation "measure (\<lambda>(E, t0, points, interval, i, lastClose, acc, w). points - i)")
     (auto simp: random_def)

definition generateMockCandlestickData :: "env \<Rightarrow> ChartTimeframe \<Rightarrow> world \<Rightarrow> js \<times> world" where
  "generateMockCandlestickData E tf w =
     (let (xs, w') = generateMockCandlestickData_loop E (now w) (mockPoints tf)
                       (mockInterval tf) 0 43000 [] w
      in (Arr xs, w'))"

subsection \<open>The lookups\<close>

text \<open>The cache key of each lookup, as its template literal builds it.\<close>

definition cryptosKey :: "string list \<Rightarrow> string" where
  "cryptosKey ids = ''cryptos-'' @ join '','' ids"

definition detailedKey :: "string \<Rightarrow> string" where
  "detailedKey ident = ''detailed-'' @ ident"

definition exchangesKey :: string where
  "exchangesKey = ''exchanges''"

definition pairsKey :: "string \<Rightarrow> string" where
  "pairsKey coinId = ''pairs-'' @ coinId"

definition historyKey :: "string \<Rightarrow> ChartTimeframe \<Rightarrow> ComparisonAsset \<Rightarrow> string" where
  "historyKey ident tf cmp =
     ''history-'' @ ident @ ''-'' @ timeframeStr tf @ ''-'' @ comparisonStr cmp"

definition candlestickKey :: "string \<Rightarrow> ChartTimeframe \<Rightarrow> string" where
  "candlestickKey ident tf = ''candlestick-'' @ ident @ ''-'' @ timeframeStr tf"

text \<open>The request URL of each lookup, as its template literal builds it.\<close>

definition cryptosUrl :: "env \<Rightarrow> string list \<Rightarrow> string" where
  "cryptosUrl E ids =
     API_BASE_URL E @ ''/coins/markets?vs_currency=usd&ids='' @ join '','' ids @
     ''&order=market_cap_desc&sparkline=false&price_change_percentage=24h,7d,30d''"

definition detailedUrl :: "env \<Rightarrow> string \<Rightarrow> string" where
  "detailedUrl E ident =
     API_BASE_URL E @ ''/coins/'' @ ident @
     ''?localization=false&tickers=false&market_data=true&community_data=true&developer_data=true&sparkline=false''"

definition exchangesUrl :: "env \<Rightarrow> string" where
  "exchangesUrl E = API_BASE_URL E @ ''/exchanges''"

definition pairsUrl :: "env \<Rightarrow> string \<Rightarrow> string" where
  "pairsUrl E coinId =
     API_BASE_URL E @ ''/coins/'' @ coinId @ ''/tickers?include_exchange_logo=true&page=1&depth=true''"

text \<open>In \<open>fetchPriceHistory\<close> both branches of the inner conditional are \<open>'daily'\<close>.\<close>

definition historyUrl :: "env \<Rightarrow> string \<Rightarrow> ChartTimeframe \<Rightarrow> ComparisonAsset \<Rightarrow> string" where
  "historyUrl E ident tf cmp =
     (let dys = getTimeframeDays tf;
          interval = (if daysLe dys 1 then ''hourly''
                      else if daysLe dys 90 then ''daily'' else ''daily'')
      in API_BASE_URL E @ ''/coins/'' @ ident @ ''/market_chart?vs_currency='' @
         comparisonStr cmp @ ''&days='' @ daysStr dys @ ''&interval='' @ interval)"

definition candlestickUrl :: "env \<Rightarrow> string \<Rightarrow> ChartTimeframe \<Rightarrow> string" where
  "candlestickUrl E ident tf =
     (let dys = getTimeframeDays tf
      in API_BASE_URL E @ ''/coins/'' @ ident @ ''/ohlc?vs_currency=usd&days='' @ daysStr dys)"

text \<open>
  The three statements that open every \<open>try\<close> block:
  \<open>const response = await fetchWithRetry(url)\<close> (three retries, the default),
  \<open>if (!response.ok) throw new Error(msg)\<close> and \<open>const data = await response.json()\<close>.
  \<open>Inl\<close> is what the \<open>catch\<close> block receives.
\<close>

definition requestJson :: "env \<Rightarrow> string \<Rightarrow> string \<Rightarrow> world \<Rightarrow> (exn + js) \<times> world" where
  "requestJson E url msg w =
     (case fetchWithRetry E url 3 w of
        (Inl e, w1) \<Rightarrow> (Inl e, w1)
      | (Inr response, w1) \<Rightarrow>
          if \<not> ok response then (Inl (Error msg), w1)
          else (case json_body response of
                  None \<Rightarrow> (Inl SyntaxError, w1)
                | Some payload \<Rightarrow> (Inr payload, w1)))"

definition fetchCryptocurrencies :: "env \<Rightarrow> string list \<Rightarrow> world \<Rightarrow> js \<times> world" where
  "fetchCryptocurrencies E ids w =
     (let cacheKey = cryptosKey ids;
          (cached, w1) = getCachedData cacheKey w
      in if truthy cached then (cached, w1)
         else
           (case requestJson E (cryptosUrl E ids) ''Failed to fetch data'' w1 of
              (Inr payload, w2) \<Rightarrow> (payload, setCachedData cacheKey payload 30000 w2)
            | (Inl err, w2) \<Rightarrow> (generateMockData E ids w2, w2)))"

definition fetchDetailedCoinData :: "env \<Rightarrow> string \<Rightarrow> world \<Rightarrow> js \<times> world" where
  "fetchDetailedCoinData E ident w =
     (let cacheKey = detailedKey ident;
          (cached, w1) = getCachedData cacheKey w
      in if truthy cached then (cached, w1)
         else
           (case requestJson E (detailedUrl E ident) ''Failed to fetch detailed data'' w1 of
              (Inr payload, w2) \<Rightarrow> (payload, setCachedData cacheKey payload 60000 w2)
            | (Inl err, w2) \<Rightarrow> (generateMockDetailedData E ident w2, w2)))"

definition fetchExchanges :: "env \<Rightarrow> world \<Rightarrow> js \<times> world" where
  "fetchExchanges E w =
     (let cacheKey = exchangesKey;
          (cached, w1) = getCachedData cacheKey w
      in if truthy cached then (cached, w1)
         else
           (case requestJson E (exchangesUrl E) ''Failed to fetch exchanges'' w1 of
              (Inr payload, w2) \<Rightarrow> (payload, setCachedData cacheKey payload 300000 w2)
            | (Inl err, w2) \<Rightarrow> (generateMockExchanges, w2)))"

definition fetchTradingPairs :: "env \<Rightarrow> string \<Rightarrow> world \<Rightarrow> js \<times> world" where
  "fetchTradingPairs E coinId w =
     (let cacheKey = pairsKey coinId;
          (cached, w1) = getCachedData cacheKey w
      in if truthy cached then (cached, w1)
         else
           (case requestJson E (pairsUrl E coinId) ''Failed to fetch trading pairs'' w1 of
              (Inr payload, w2) \<Rightarrow>
                (case getProp payload ''tickers'' of
                   Inr tickers \<Rightarrow>
                     (orElse tickers (Arr []),
                      setCachedData cacheKey (orElse tickers (Arr [])) 60000 w2)
                 | Inl err \<Rightarrow> (generateMockTradingPairs E coinId w2, w2))
            | (Inl err, w2) \<Rightarrow> (generateMockTradingPairs E coinId w2, w2)))"

text \<open>
  The callback of \<open>data.prices.map\<close> in \<open>fetchPriceHistory\<close> at one element and its index,
  and the map itself, which stops at the first exception.
\<close>

definition chartPoint :: "js \<Rightarrow> nat \<Rightarrow> js \<Rightarrow> exn + js" where
  "chartPoint payload index x =
     (case destructure 2 x of
        Inl err \<Rightarrow> Inl err
      | Inr vs \<Rightarrow>
          Inr (Obj
            [(''timestamp'', vs ! 0),
             (''price'', vs ! 1),
             (''volume'',
                orElse (optElemAt (optElemAt (field ''total_volumes'' payload) index) 1) (Num 0)),
             (''market_cap'',
                orElse (optElemAt (optElemAt (field ''market_caps'' payload) index) 1) (Num 0))]))"

fun chartPoints :: "js \<Rightarrow> nat \<Rightarrow> js list \<Rightarrow> exn + js list" where
  "chartPoints payload index [] = Inr []"
| "chartPoints payload index (x # xs) =
     (case chartPoint payload index x of
        Inl err \<Rightarrow> Inl err
      | Inr p \<Rightarrow>
          (case chartPoints payload (Suc index) xs of
             Inl err \<Rightarrow> Inl err
           | Inr ps \<Rightarrow> Inr (p # ps)))"

definition chartDataOf :: "js \<Rightarrow> exn + js list" where
  "chartDataOf payload =
     (case getProp payload ''prices'' of
        Inl err \<Rightarrow> Inl err
      | Inr prices \<Rightarrow>
          (case asArray prices of
             Inl err \<Rightarrow> Inl err
           | Inr xs \<Rightarrow> chartPoints payload 0 xs))"

definition fetchPriceHistory ::
  "env \<Rightarrow> string \<Rightarrow> ChartTimeframe \<Rightarrow> ComparisonAsset \<Rightarrow> world \<Rightarrow> js \<times> world" where
  "fetchPriceHistory E ident tf cmp w =
     (let cacheKey = historyKey ident tf cmp;
          (cached, w1) = getCachedData cacheKey w
      in if truthy cached then (cached, w1)
         else
           (case requestJson E (historyUrl E ident tf cmp) ''Failed to fetch price history'' w1 of
              (Inr payload, w2) \<Rightarrow>
                (case chartDataOf payload of
                   Inr chartData \<Rightarrow> (Arr chartData, setCachedData cacheKey (Arr chartData) 30000 w2)
                 | Inl err \<Rightarrow> generateMockChartData E tf w2)
            | (Inl err, w2) \<Rightarrow> generateMockChartData E tf w2))"

text \<open>
  The \<open>data.map\<close> of \<open>fetchCandlestickData\<close>: each row is destructured into five values
  and given a volume \<open>Math.random() * 1000000\<close>.
\<close>

fun candlesOf :: "env \<Rightarrow> js list \<Rightarrow> world \<Rightarrow> (exn + js list) \<times> world" where
  "candlesOf E [] w = (Inr [], w)"
| "candlesOf E (x # xs) w =
     (case destructure 5 x of
        Inl err \<Rightarrow> (Inl err, w)
      | Inr vs \<Rightarrow>
          (let (u, w1) = random E w;
               candle = Obj [(''timestamp'', vs ! 0), (''open'', vs ! 1), (''high'', vs ! 2),
                             (''low'', vs ! 3), (''close'', vs ! 4),
                             (''volume'', Num (u * 1000000))]
           in case candlesOf E xs w1 of
                (Inl err, w2) \<Rightarrow> (Inl err, w2)
              | (Inr cs, w2) \<Rightarrow> (Inr (candle # cs), w2)))"

definition fetchCandlestickData ::
  "env \<Rightarrow> string \<Rightarrow> ChartTimeframe \<Rightarrow> world \<Rightarrow> js \<times> world" where
  "fetchCandlestickData E ident tf w =
     (let cacheKey = candlestickKey ident tf;
          (cached, w1) = getCachedData cacheKey w
      in if truthy cached then (cached, w1)
         else
           (case requestJson E (candlestickUrl E ident tf) ''Failed to fetch candlestick data'' w1 of
              (Inr payload, w2) \<Rightarrow>
                (case asArray payload of
                   Inl err \<Rightarrow> generateMockCandlestickData E tf w2
                 | Inr rows \<Rightarrow>
                     (case candlesOf E rows w2 of
                        (Inr candlestickData, w3) \<Rightarrow>
                          (Arr candlestickData,
                           setCachedData cacheKey (Arr candlestickData) 30000 w3)
                      | (Inl err, w3) \<Rightarrow> generateMockCandlestickData E tf w3))
            | (Inl err, w2) \<Rightarrow> generateMockCandlestickData E tf w2))"

subsection \<open>generatePrediction\<close>

text \<open>
  The \<open>CryptoCurrency\<close> interface of types/crypto.ts. A field of type \<open>number | null\<close>
  or marked optional is an \<open>option\<close>, \<open>None\<close> being \<open>null\<close> (or absent). The fields \<open>id\<close>
  and \<open>image\<close> carry a suffix, their names being constants of HOL.
\<close>

record CryptoCurrency =
  id_str :: string
  symbol :: string
  name :: string
  current_price :: real
  price_change_percentage_24h :: "real option"
  price_change_percentage_7d :: "real option"
  price_change_percentage_30d :: "real option"
  market_cap :: real
  market_cap_rank :: real
  fully_diluted_valuation :: "real option"
  total_volume :: real
  circulating_supply :: real
  total_supply :: "real option"
  max_supply :: "real option"
  ath :: real
  ath_date :: string
  atl :: real
  atl_date :: string
  image_url :: string
  last_updated :: string

datatype trend_label = Bullish | Bearish | Neutral

record PredictionData =
  currency :: string
  prediction :: real
  confidence :: real
  trend :: trend_label
  timeframe :: string

text \<open>
  ToNumber on a \<open>number | null\<close>: the comparison \<open>x > 0\<close> and \<open>Math.abs(x)\<close> both
  convert \<open>null\<close> to 0.
\<close>

definition toNumber :: "real option \<Rightarrow> real" where
  "toNumber x = (case x of None \<Rightarrow> 0 | Some v \<Rightarrow> v)"

text \<open>The local constants of \<open>generatePrediction\<close> that depend on the snapshot alone.\<close>

definition trendFactor :: "CryptoCurrency \<Rightarrow> real" where
  "trendFactor crypto = (if toNumber (price_change_percentage_24h crypto) > 0 then 0.05 else - 0.05)"

definition marketCapFactor :: "CryptoCurrency \<Rightarrow> real" where
  "marketCapFactor crypto = (if market_cap_rank crypto \<le> 10 then 0.02 else - 0.02)"

definition priceStability :: "CryptoCurrency \<Rightarrow> real" where
  "priceStability crypto =
     (if \<bar>toNumber (price_change_percentage_24h crypto)\<bar> < 5 then 0.1 else - 0.1)"

definition marketCapStability :: "CryptoCurrency \<Rightarrow> real" where
  "marketCapStability crypto = (if market_cap crypto > 1000000000 then 0.1 else - 0.05)"

definition baseConfidence :: real where
  "baseConfidence = 0.7"

text \<open>
  The two calls of \<open>Math.random()\<close> are drawn in the order the source evaluates them:
  first for the volatility factor, then for the confidence.
\<close>

definition generatePrediction :: "env \<Rightarrow> CryptoCurrency \<Rightarrow> world \<Rightarrow> PredictionData \<times> world" where
  "generatePrediction E crypto w =
     (let (u1, w1) = random E w;
          volatilityFactor = u1 * 0.2 - 0.1;
          predicted = current_price crypto *
            (1 + volatilityFactor + trendFactor crypto + marketCapFactor crypto);
          (u2, w2) = random E w1;
          conf = max 0.5 (min 0.95
            (baseConfidence + priceStability crypto + marketCapStability crypto + u2 * 0.2));
          label = (if predicted > current_price crypto * 1.03 then Bullish
                   else if predicted < current_price crypto * 0.97 then Bearish
                   else Neutral)
      in (\<lparr>currency = toUpperCase E (symbol crypto), prediction = predicted, confidence = conf,
           trend = label, timeframe = ''24h''\<rparr>, w2))"

section \<open>Vocabulary of the statements\<close>

text \<open>
  An outcome after which the loop tries again while attempts remain: a rejected fetch, or
  a response with status 500 or more.
\<close>

definition retryable :: "outcome \<Rightarrow> bool" where
  "retryable out = (case out of Rejected e \<Rightarrow> True | Resolved r \<Rightarrow> 500 \<le> status r)"

definition retryTrace :: "string \<Rightarrow> nat \<Rightarrow> nat \<Rightarrow> event list" where
  "retryTrace url a b = concat (map (\<lambda>n. [Fetched url, Slept (backoffDelay n)]) [a..<b])"

fun fetches :: "event list \<Rightarrow> nat" where
  "fetches [] = 0"
| "fetches (Fetched u # es) = Suc (fetches es)"
| "fetches (Slept d # es) = fetches es"

fun sleeps :: "event list \<Rightarrow> int list" where
  "sleeps [] = []"
| "sleeps (Fetched u # es) = sleeps es"
| "sleeps (Slept d # es) = d # sleeps es"

text \<open>The events a call added: the trace of the world after, without that of the world before.\<close>

definition issued :: "world \<Rightarrow> world \<Rightarrow> event list" where
  "issued w w' = drop (length (trace w)) (trace w')"

text \<open>
  The Fetch Client fails: \<open>fetchWithRetry\<close> (with the three retries every lookup uses)
  throws, or returns a response that is not OK.
\<close>

definition fetchFails :: "env \<Rightarrow> string \<Rightarrow> world \<Rightarrow> bool" where
  "fetchFails E url w = (case fst (fetchWithRetry E url 3 w) of Inl e \<Rightarrow> True | Inr r \<Rightarrow> \<not> ok r)"

subsection \<open>Structural validity\<close>

text \<open>
  An object that has every one of the given properties, none of them \<open>undefined\<close>.
\<close>

definition populated :: "string list \<Rightarrow> js \<Rightarrow> bool" where
  "populated ks x =
     (case x of
        Obj kvs \<Rightarrow> list_all (\<lambda>k. case map_of kvs k of Some v \<Rightarrow> v \<noteq> Undefined | None \<Rightarrow> False) ks
      | _ \<Rightarrow> False)"

text \<open>The properties the \<open>CryptoCurrency\<close> interface does not mark optional.\<close>

definition cryptoCurrencyRequired :: "string list" where
  "cryptoCurrencyRequired =
     [''id'', ''symbol'', ''name'', ''current_price'', ''price_change_percentage_24h'',
      ''market_cap'', ''market_cap_rank'', ''total_volume'', ''circulating_supply'', ''ath'',
      ''ath_date'', ''atl'', ''atl_date'', ''image'', ''last_updated'']"

definition numOf :: "js \<Rightarrow> real option" where
  "numOf x = (case x of Num v \<Rightarrow> Some v | _ \<Rightarrow> None)"

text \<open>The candle invariant, on a candle object: numbers, ordered, with a volume \<open>\<ge> 0\<close>.\<close>

definition candleOk :: "js \<Rightarrow> bool" where
  "candleOk c =
     (case (numOf (field ''open'' c), numOf (field ''high'' c), numOf (field ''low'' c),
            numOf (field ''close'' c), numOf (field ''volume'' c)) of
        (Some opn, Some high, Some low, Some cls, Some volume) \<Rightarrow>
          low \<le> opn \<and> opn \<le> high \<and> low \<le> cls \<and> cls \<le> high \<and> 0 \<le> volume
      | _ \<Rightarrow> False)"

text \<open>The elements of an array value.\<close>

definition elems :: "js \<Rightarrow> js list" where
  "elems x = (case x of Arr xs \<Rightarrow> xs | _ \<Rightarrow> [])"

text \<open>
  The candle \<open>fetchCandlestickData\<close> builds from an upstream row and a random draw: the
  row's first five positions and a volume.
\<close>

definition parsedCandle :: "js \<Rightarrow> real \<Rightarrow> js" where
  "parsedCandle row u =
     Obj [(''timestamp'', elemAt row 0), (''open'', elemAt row 1), (''high'', elemAt row 2),
          (''low'', elemAt row 3), (''close'', elemAt row 4), (''volume'', Num (u * 1000000))]"

subsection \<open>Concrete environments, worlds and snapshots\<close>

text \<open>The inputs on which the theorems are instantiated.\<close>

definition emptyWorld :: world where
  "emptyWorld = \<lparr>cache = (\<lambda>k. None), now = 0, trace = [], draws = 0\<rparr>"

text \<open>
  Upper-casing on ASCII text, where \<open>toUpperCase\<close> turns a letter \<open>a..z\<close> (codes
  97..122) into the letter 32 below it, that is, clears its bit 5.
\<close>

definition asciiUpperCase :: "string \<Rightarrow> string" where
  "asciiUpperCase s =
     map (\<lambda>c. if 97 \<le> (of_char c :: nat) \<and> (of_char c :: nat) \<le> 122
              then (case c of Char b0 b1 b2 b3 b4 b5 b6 b7 \<Rightarrow> Char b0 b1 b2 b3 b4 False b6 b7)
              else c) s"

text \<open>
  An environment whose network gives the same outcome to every request and whose random
  source always draws the same value; its clock prints as the epoch and its strings are
  ASCII.
\<close>

definition constantEnv :: "outcome \<Rightarrow> real \<Rightarrow> env" where
  "constantEnv out u =
     \<lparr>API_BASE_URL = ''https://api.coingecko.com/api/v3'',
      net = (\<lambda>tr url. out), latency = (\<lambda>tr. 0), rnd = (\<lambda>k. u),
      toISOString = (\<lambda>t. ''1970-01-01T00:00:00.000Z''),
      toUpperCase = asciiUpperCase\<rparr>"

text \<open>A response whose body can be read (empty text), and one whose body cannot.\<close>

definition respond :: "int \<Rightarrow> js option \<Rightarrow> response" where
  "respond st j = \<lparr>status = st, text_body = Some [], json_body = j\<rparr>"

definition respondUnreadable :: "int \<Rightarrow> response" where
  "respondUnreadable st = \<lparr>status = st, text_body = None, json_body = None\<rparr>"

text \<open>An environment whose network answers every request with status 200 and a given payload.\<close>

definition servingEnv :: "js \<Rightarrow> env" where
  "servingEnv payload = constantEnv (Resolved (respond 200 (Some payload))) (1 / 2)"

text \<open>An environment whose network rejects every request.\<close>

definition offlineEnv :: env where
  "offlineEnv = constantEnv (Rejected NetworkError) (1 / 2)"

text \<open>
  A snapshot with the market figures of the placeholder of \<open>generateMockData\<close> (market
  cap 1000000, rank 999), a given price and a given 24h change.
\<close>

definition sampleCoin :: "real \<Rightarrow> real option \<Rightarrow> CryptoCurrency" where
  "sampleCoin price change =
     \<lparr>id_str = ''coin'', symbol = ''coi'', name = ''Coin'', current_price = price,
      price_change_percentage_24h = change, price_change_percentage_7d = Some 0,
      price_change_percentage_30d = Some 0, market_cap = 1000000, market_cap_rank = 999,
      fully_diluted_valuation = Some 1000000, total_volume = 100000,
      circulating_supply = 1000000, total_supply = Some 1000000, max_supply = Some 1000000,
      ath = 2, ath_date = ''2024-01-01T00:00:00.000Z'', atl = 0.5,
      atl_date = ''2024-01-01T00:00:00.000Z'', image_url = '''',
      last_updated = ''2024-01-01T00:00:00.000Z''\<rparr>"

section \<open>Verification\<close>

declare fetchWithRetry_loop.simps [simp del]

subsection \<open>The retry loop\<close>

lemma retryTrace_same [simp]: "retryTrace url a a = []"
  by (simp add: retryTrace_def)

lemma retryTrace_step: "a < b \<Longrightarrow> retryTrace url a b = Fetched url # Slept (backoffDelay a) # retryTrace url (Suc a) b"
  by (simp add: retryTrace_def upt_conv_Cons)

lemma fetches_append [simp]: "fetches (xs @ ys) = fetches xs + fetches ys"
  by (induction xs rule: fetches.induct) auto

lemma sleeps_append [simp]: "sleeps (xs @ ys) = sleeps xs @ sleeps ys"
  by (induction xs rule: sleeps.induct) auto

lemma fetches_retryTrace: "a \<le> b \<Longrightarrow> fetches (retryTrace url a b) = b - a"
proof (induction "b - a" arbitrary: a)
  case 0 then show ?case by simp
next
  case (Suc k)
  then have "a < b" by simp
  with Suc show ?case by (simp add: retryTrace_step)
qed

lemma sleeps_retryTrace: "a \<le> b \<Longrightarrow> sleeps (retryTrace url a b) = map backoffDelay [a..<b]"
proof (induction "b - a" arbitrary: a)
  case 0 then show ?case by simp
next
  case (Suc k)
  then have "a < b" by simp
  with Suc show ?case by (simp add: retryTrace_step upt_conv_Cons)
qed

lemma loop_last:
  assumes "int attempt = retries"
  shows "trace (snd (fetchWithRetry_loop E url retries attempt w)) = trace w @ [Fetched url]"
  using assms
  by (subst fetchWithRetry_loop.simps)
     (simp add: fetch_def split: outcome.splits option.splits)

lemma loop_retry:
  assumes "int attempt < retries" "retryable (net E (trace w) url)"
  shows "fetchWithRetry_loop E url retries attempt w =
         fetchWithRetry_loop E url retries (Suc attempt)
           (delay (backoffDelay attempt) (snd (fetch E url w)))"
proof (cases "net E (trace w) url")
  case (Resolved r)
  with assms have "500 \<le> status r" by (simp add: retryable_def)
  with assms(1) Resolved show ?thesis
    by (subst fetchWithRetry_loop.simps) (simp add: fetch_def ok_def)
next
  case (Rejected e)
  with assms(1) show ?thesis
    by (subst fetchWithRetry_loop.simps) (simp add: fetch_def)
qed

lemma loop_trace:
  assumes "\<forall>tr. retryable (net E tr url)"
  shows "int attempt \<le> retries \<Longrightarrow>
         trace (snd (fetchWithRetry_loop E url retries attempt w)) =
         trace w @ retryTrace url attempt (nat retries) @ [Fetched url]"
proof (induction "nat retries - attempt" arbitrary: attempt w)
  case 0
  then have "int attempt = retries" and "nat retries = attempt" by simp_all
  then show ?case by (simp add: loop_last)
next
  case (Suc k)
  then have lt: "int attempt < retries" and lt': "attempt < nat retries" by simp_all
  have r: "retryable (net E (trace w) url)" using assms by simp
  have "k = nat retries - Suc attempt" using Suc.hyps by simp
  moreover have "int (Suc attempt) \<le> retries" using lt by simp
  ultimately show ?case
    using Suc.hyps(1) [of "Suc attempt"]
    by (simp add: loop_retry [OF lt r] retryTrace_step [OF lt'] delay_def fetch_def)
qed

lemma loop_result:
  assumes "\<forall>tr. retryable (net E tr url)"
  shows "int attempt \<le> retries \<Longrightarrow>
         fst (fetchWithRetry_loop E url retries attempt w) =
         (case net E (trace w @ retryTrace url attempt (nat retries)) url of
            Rejected e \<Rightarrow> Inl e
          | Resolved r \<Rightarrow> (case text_body r of Some b \<Rightarrow> Inr r | None \<Rightarrow> Inl BodyError))"
proof (induction "nat retries - attempt" arbitrary: attempt w)
  case 0
  then have eq: "int attempt = retries" "nat retries = attempt" by simp_all
  have r: "retryable (net E (trace w) url)" using assms by simp
  show ?case
  proof (cases "net E (trace w) url")
    case (Resolved r')
    with r have "500 \<le> status r'" by (simp add: retryable_def)
    with eq Resolved show ?thesis
      by (subst fetchWithRetry_loop.simps) (simp add: fetch_def ok_def split: option.splits)
  next
    case (Rejected e)
    with eq show ?thesis
      by (subst fetchWithRetry_loop.simps) (simp add: fetch_def)
  qed
next
  case (Suc k)
  then have lt: "int attempt < retries" and lt': "attempt < nat retries" by simp_all
  have r: "retryable (net E (trace w) url)" using assms by simp
  have "k = nat retries - Suc attempt" using Suc.hyps by simp
  moreover have "int (Suc attempt) \<le> retries" using lt by simp
  ultimately show ?case
    using Suc.hyps(1) [of "Suc attempt"]
    by (simp add: loop_retry [OF lt r] retryTrace_step [OF lt'] delay_def fetch_def)
qed

lemma loop_frame:
  "cache (snd (fetchWithRetry_loop E url retries attempt w)) = cache w \<and>
   draws (snd (fetchWithRetry_loop E url retries attempt w)) = draws w \<and>
   (\<exists>es. trace (snd (fetchWithRetry_loop E url retries attempt w)) = trace w @ es)"
proof (induction E url retries attempt w rule: fetchWithRetry_loop.induct)
  case (1 E url retries attempt w)
  show ?case
    apply (subst (1 2 3) fetchWithRetry_loop.simps)
    using 1
    apply (auto simp: fetch_def delay_def split: outcome.splits option.splits)
    done
qed

lemma issued_append: "trace w' = trace w @ es \<Longrightarrow> issued w w' = es"
  by (simp add: issued_def)

lemma backoffDelay_mono: "n1 \<le> n2 \<Longrightarrow> backoffDelay n1 \<le> backoffDelay n2"
proof -
  assume "n1 \<le> n2"
  then have "(2::int) ^ n1 \<le> 2 ^ n2" by (simp add: power_increasing)
  then have "(1000::int) * 2 ^ n1 \<le> 1000 * 2 ^ n2" by simp
  then show ?thesis by (simp add: backoffDelay_def min_le_iff_disj)
qed

text \<open>
  C8. The delay slept after attempt \<open>n\<close> (counted from 0) is
  \<open>min (1000 * 2 ^ n) 10000\<close> ms: when every attempt of a call fails in a retryable way,
  the delays the call sleeps are exactly these values for \<open>n = 0, ..., retries - 1\<close>.
  The delay never decreases from one attempt to a later one and never exceeds 10000 ms.
\<close>

theorem backoff_schedule:
  "backoffDelay n = min (1000 * 2 ^ n) 10000 \<and>
   (n1 < n2 \<longrightarrow> backoffDelay n1 \<le> backoffDelay n2) \<and>
   backoffDelay n \<le> 10000 \<and>
   ((\<forall>tr. retryable (net E tr url)) \<and> 0 \<le> retries \<longrightarrow>
      sleeps (issued w (snd (fetchWithRetry E url retries w))) =
      map (\<lambda>n. min (1000 * 2 ^ n) 10000) [0..<nat retries])"
proof -
  have a: "backoffDelay n = min (1000 * 2 ^ n) 10000"
    by (simp add: backoffDelay_def)
  have b: "n1 < n2 \<longrightarrow> backoffDelay n1 \<le> backoffDelay n2"
    by (simp add: backoffDelay_mono)
  have c: "backoffDelay n \<le> 10000"
    by (simp add: backoffDelay_def)
  have d: "sleeps (issued w (snd (fetchWithRetry E url retries w))) =
           map (\<lambda>n. min (1000 * 2 ^ n) 10000) [0..<nat retries]"
    if r: "\<forall>tr. retryable (net E tr url)" and p: "0 \<le> retries"
  proof -
    have "trace (snd (fetchWithRetry E url retries w)) =
          trace w @ retryTrace url 0 (nat retries) @ [Fetched url]"
      unfolding fetchWithRetry_def using loop_trace [OF r, of 0 retries w] p by simp
    then have "issued w (snd (fetchWithRetry E url retries w)) =
               retryTrace url 0 (nat retries) @ [Fetched url]"
      by (rule issued_append)
    then show ?thesis
      by (simp add: sleeps_retryTrace backoffDelay_def [abs_def])
  qed
  from a b c d show ?thesis by blast
qed

theorem backoff_schedule_witness:
  "backoffDelay 2 = 4000 \<and> backoffDelay 5 = 10000 \<and> (2::nat) < 5 \<and>
   backoffDelay 2 \<le> backoffDelay 5 \<and>
   (\<forall>tr. retryable (net (constantEnv (Rejected NetworkError) (1/2)) tr ''u'')) \<and>
   sleeps (issued emptyWorld (snd (fetchWithRetry (constantEnv (Rejected NetworkError) (1/2)) ''u'' 3 emptyWorld)))
     = [1000, 2000, 4000]"
  using backoff_schedule [of 2 2 5 "constantEnv (Rejected NetworkError) (1/2)" "''u''" 3 emptyWorld]
    backoff_schedule [of 5 2 5 "constantEnv (Rejected NetworkError) (1/2)" "''u''" 3 emptyWorld]
  by (simp add: constantEnv_def retryable_def upt_rec [of 0] upt_rec [of 1] upt_rec [of 2] numeral_3_eq_3)

text \<open>
  The loop when the attempts that are actually made all fail in a retryable way: attempt
  \<open>n\<close> meets the history in which every earlier attempt was followed by its sleep.
\<close>

lemma loop_run:
  "int attempt \<le> retries \<Longrightarrow>
   (\<forall>n. attempt \<le> n \<and> n \<le> nat retries \<longrightarrow>
        retryable (net E (trace w @ retryTrace url attempt n) url)) \<Longrightarrow>
   trace (snd (fetchWithRetry_loop E url retries attempt w)) =
     trace w @ retryTrace url attempt (nat retries) @ [Fetched url] \<and>
   fst (fetchWithRetry_loop E url retries attempt w) =
     (case net E (trace w @ retryTrace url attempt (nat retries)) url of
        Rejected e \<Rightarrow> Inl e
      | Resolved r \<Rightarrow> (case text_body r of Some b \<Rightarrow> Inr r | None \<Rightarrow> Inl BodyError))"
proof (induction "nat retries - attempt" arbitrary: attempt w)
  case 0
  then have eq: "int attempt = retries" "nat retries = attempt" by simp_all
  have r: "retryable (net E (trace w) url)"
    using "0.prems"(2) eq by (metis append_Nil2 order_refl retryTrace_same)
  have res: "fst (fetchWithRetry_loop E url retries attempt w) =
     (case net E (trace w) url of
        Rejected e \<Rightarrow> Inl e
      | Resolved r \<Rightarrow> (case text_body r of Some b \<Rightarrow> Inr r | None \<Rightarrow> Inl BodyError))"
  proof (cases "net E (trace w) url")
    case (Resolved r')
    with r have "500 \<le> status r'" by (simp add: retryable_def)
    with eq Resolved show ?thesis
      by (subst fetchWithRetry_loop.simps) (simp add: fetch_def ok_def split: option.splits)
  next
    case (Rejected e)
    with eq show ?thesis
      by (subst fetchWithRetry_loop.simps) (simp add: fetch_def)
  qed
  with eq show ?case by (simp add: loop_last)
next
  case (Suc k)
  then have lt: "int attempt < retries" and lt': "attempt < nat retries" by simp_all
  have r: "retryable (net E (trace w) url)"
    using Suc.prems(2) lt' by (metis append_Nil2 less_imp_le order_refl retryTrace_same)
  let ?w' = "delay (backoffDelay attempt) (snd (fetch E url w))"
  have tr': "trace ?w' = trace w @ [Fetched url, Slept (backoffDelay attempt)]"
    by (simp add: delay_def fetch_def)
  have step: "trace ?w' @ retryTrace url (Suc attempt) n = trace w @ retryTrace url attempt n"
    if "Suc attempt \<le> n" for n
    using that by (simp add: tr' retryTrace_step [of attempt n])
  have later: "\<forall>n. Suc attempt \<le> n \<and> n \<le> nat retries \<longrightarrow>
      retryable (net E (trace ?w' @ retryTrace url (Suc attempt) n) url)"
    using Suc.prems(2) step by simp
  have k: "k = nat retries - Suc attempt" using Suc.hyps by simp
  have le: "int (Suc attempt) \<le> retries" using lt by simp
  from Suc.hyps(1) [OF k le later] show ?case
    by (simp add: loop_retry [OF lt r] step [of "nat retries"] lt' Suc_leI)
qed

text \<open>
  C5 (as the code has it). With a retry count \<open>retries \<ge> 0\<close>: when every attempt that
  is made yields a response with status 503, \<open>fetchWithRetry\<close> performs exactly
  \<open>retries + 1\<close> attempts; it then returns the response of the last attempt if the body
  of that response can be read (the code reads it for its error log, inside the \<open>try\<close>),
  and throws the error of the read otherwise. When the response has status 404, it
  performs exactly one attempt and returns that response.
\<close>

theorem fetchWithRetry_boundaries:
  assumes "0 \<le> retries"
  shows "((\<forall>n\<le>nat retries. \<exists>r. net E (trace w @ retryTrace url 0 n) url = Resolved r \<and>
                                status r = 503) \<longrightarrow>
          (\<exists>r. net E (butlast (trace (snd (fetchWithRetry E url retries w)))) url = Resolved r \<and>
               status r = 503 \<and>
               fetches (issued w (snd (fetchWithRetry E url retries w))) = nat retries + 1 \<and>
               fst (fetchWithRetry E url retries w) =
                 (case text_body r of Some b \<Rightarrow> Inr r | None \<Rightarrow> Inl BodyError))) \<and>
         (\<forall>r. net E (trace w) url = Resolved r \<and> status r = 404 \<longrightarrow>
              (\<exists>w'. fetchWithRetry E url retries w = (Inr r, w') \<and>
                    issued w w' = [Fetched url]))"
proof (intro conjI impI allI)
  assume all: "\<forall>n\<le>nat retries. \<exists>r. net E (trace w @ retryTrace url 0 n) url = Resolved r \<and>
                                status r = 503"
  have rt: "\<forall>n. 0 \<le> n \<and> n \<le> nat retries \<longrightarrow>
               retryable (net E (trace w @ retryTrace url 0 n) url)"
  proof (intro allI impI)
    fix n
    assume "0 \<le> n \<and> n \<le> nat retries"
    with all obtain r where "net E (trace w @ retryTrace url 0 n) url = Resolved r" "status r = 503"
      by blast
    then show "retryable (net E (trace w @ retryTrace url 0 n) url)" by (simp add: retryable_def)
  qed
  have le: "int 0 \<le> retries" using assms by simp
  note run = loop_run [OF le rt]
  have tr: "trace (snd (fetchWithRetry E url retries w)) =
      trace w @ retryTrace url 0 (nat retries) @ [Fetched url]"
    using run by (simp add: fetchWithRetry_def)
  from all obtain r where r: "net E (trace w @ retryTrace url 0 (nat retries)) url = Resolved r"
    "status r = 503" by blast
  have "net E (butlast (trace (snd (fetchWithRetry E url retries w)))) url = Resolved r"
    using r(1) by (simp add: tr butlast_append)
  moreover have "fetches (issued w (snd (fetchWithRetry E url retries w))) = nat retries + 1"
    using issued_append [OF tr] by (simp add: fetches_retryTrace)
  moreover have "fst (fetchWithRetry E url retries w) =
      (case text_body r of Some b \<Rightarrow> Inr r | None \<Rightarrow> Inl BodyError)"
    using run r(1) by (simp add: fetchWithRetry_def)
  ultimately show "\<exists>r. net E (butlast (trace (snd (fetchWithRetry E url retries w)))) url = Resolved r \<and>
               status r = 503 \<and>
               fetches (issued w (snd (fetchWithRetry E url retries w))) = nat retries + 1 \<and>
               fst (fetchWithRetry E url retries w) =
                 (case text_body r of Some b \<Rightarrow> Inr r | None \<Rightarrow> Inl BodyError)"
    using r(2) by blast
next
  fix r
  assume "net E (trace w) url = Resolved r \<and> status r = 404"
  then show "\<exists>w'. fetchWithRetry E url retries w = (Inr r, w') \<and> issued w w' = [Fetched url]"
    using assms
    by (simp add: fetchWithRetry_def fetchWithRetry_loop.simps [of E url retries 0 w]
        fetch_def issued_def)
qed

theorem fetchWithRetry_boundaries_witness:
  "(0::int) \<le> 3 \<and>
   (\<forall>tr. net (constantEnv (Resolved (respond 503 None)) (1/2)) tr ''u'' =
           Resolved (respond 503 None)) \<and>
   status (respond 503 None) = 503 \<and>
   fst (fetchWithRetry (constantEnv (Resolved (respond 503 None)) (1/2)) ''u'' 3 emptyWorld)
     = Inr (respond 503 None) \<and>
   fetches (issued emptyWorld
     (snd (fetchWithRetry (constantEnv (Resolved (respond 503 None)) (1/2)) ''u'' 3 emptyWorld))) = 4 \<and>
   (\<forall>tr. net (constantEnv (Resolved (respondUnreadable 503)) (1/2)) tr ''u'' =
           Resolved (respondUnreadable 503)) \<and>
   fst (fetchWithRetry (constantEnv (Resolved (respondUnreadable 503)) (1/2)) ''u'' 3 emptyWorld)
     = Inl BodyError \<and>
   fetches (issued emptyWorld
     (snd (fetchWithRetry (constantEnv (Resolved (respondUnreadable 503)) (1/2)) ''u'' 3
        emptyWorld))) = 4 \<and>
   fst (fetchWithRetry (constantEnv (Resolved (respond 404 None)) (1/2)) ''u'' 3 emptyWorld)
     = Inr (respond 404 None) \<and>
   issued emptyWorld
     (snd (fetchWithRetry (constantEnv (Resolved (respond 404 None)) (1/2)) ''u'' 3 emptyWorld))
     = [Fetched ''u'']"
  using fetchWithRetry_boundaries [of 3 "constantEnv (Resolved (respond 503 None)) (1/2)" emptyWorld "''u''"]
    fetchWithRetry_boundaries [of 3 "constantEnv (Resolved (respondUnreadable 503)) (1/2)" emptyWorld "''u''"]
    fetchWithRetry_boundaries [of 3 "constantEnv (Resolved (respond 404 None)) (1/2)" emptyWorld "''u''"]
  by (auto simp: constantEnv_def respond_def respondUnreadable_def)

lemma unreadable_body_raises:
  assumes "0 \<le> retries"
    and "\<forall>tr. \<exists>r. net E tr url = Resolved r \<and> 500 \<le> status r \<and> text_body r = None"
  shows "fst (fetchWithRetry E url retries w) = Inl BodyError"
    and "fetches (issued w (snd (fetchWithRetry E url retries w))) = nat retries + 1"
proof -
  have rt: "\<forall>tr. retryable (net E tr url)"
  proof
    fix tr
    from assms(2) obtain r where "net E tr url = Resolved r" "500 \<le> status r" by blast
    then show "retryable (net E tr url)" by (simp add: retryable_def)
  qed
  from assms(2) obtain r where "net E (trace w @ retryTrace url 0 (nat retries)) url = Resolved r"
    "text_body r = None" by blast
  then show "fst (fetchWithRetry E url retries w) = Inl BodyError"
    using loop_result [OF rt, of 0 retries w] assms(1) by (simp add: fetchWithRetry_def)
  have "trace (snd (fetchWithRetry E url retries w)) =
        trace w @ retryTrace url 0 (nat retries) @ [Fetched url]"
    using loop_trace [OF rt, of 0 retries w] assms(1) by (simp add: fetchWithRetry_def)
  from issued_append [OF this]
  show "fetches (issued w (snd (fetchWithRetry E url retries w))) = nat retries + 1"
    by (simp add: fetches_retryTrace)
qed

text \<open>
  C5 as stated fails when the body of the last response cannot be read: every one of the
  four attempts yields a response with status 503, and \<open>fetchWithRetry\<close> does not return
  the last of them but throws, the rejection of \<open>response.text()\<close> reaching the \<open>catch\<close>
  block with no attempt left.
\<close>

theorem unreadable_body_counterexample:
  "(\<forall>tr. net (constantEnv (Resolved (respondUnreadable 503)) (1/2)) tr ''u'' =
           Resolved (respondUnreadable 503)) \<and>
   status (respondUnreadable 503) = 503 \<and>
   fetches (issued emptyWorld
     (snd (fetchWithRetry (constantEnv (Resolved (respondUnreadable 503)) (1/2)) ''u'' 3
        emptyWorld))) = 4 \<and>
   fst (fetchWithRetry (constantEnv (Resolved (respondUnreadable 503)) (1/2)) ''u'' 3 emptyWorld)
     = Inl BodyError \<and>
   fst (fetchWithRetry (constantEnv (Resolved (respondUnreadable 503)) (1/2)) ''u'' 3 emptyWorld)
     \<noteq> Inr (respondUnreadable 503)"
proof -
  let ?E = "constantEnv (Resolved (respondUnreadable 503)) (1/2)"
  have always: "\<forall>tr. \<exists>r. net ?E tr ''u'' = Resolved r \<and> 500 \<le> status r \<and> text_body r = None"
    by (simp add: constantEnv_def respondUnreadable_def)
  have "fst (fetchWithRetry ?E ''u'' 3 emptyWorld) = Inl BodyError"
    and "fetches (issued emptyWorld (snd (fetchWithRetry ?E ''u'' 3 emptyWorld))) = nat 3 + 1"
    using unreadable_body_raises [OF _ always, of 3 emptyWorld] by simp_all
  then show ?thesis
    by (simp add: constantEnv_def respondUnreadable_def)
qed

lemma client_error_returned:
  assumes "0 \<le> retries" "net E (trace w) url = Resolved r" "400 \<le> status r" "status r < 500"
  shows "fetchWithRetry E url retries w = (Inr r, snd (fetch E url w))"
  using assms
  by (simp add: fetchWithRetry_def fetchWithRetry_loop.simps [of E url retries 0 w] fetch_def)

text \<open>
  C1 (the code departs from it). A response with status 429 satisfies the first test of the
  loop, \<open>status \<ge> 400 \<and> status < 500\<close>, and is returned at once: with three retries left,
  \<open>fetchWithRetry\<close> makes one attempt, sleeps for no delay and returns the 429 response. The
  \<open>status = 429\<close> disjunct of the retry test below it is never reached.
\<close>

theorem fetchWithRetry_429_not_retried:
  "fetchWithRetry (constantEnv (Resolved (respond 429 None)) (1/2)) ''u'' 3 emptyWorld =
     (Inr (respond 429 None), emptyWorld\<lparr>trace := [Fetched ''u'']\<rparr>) \<and>
   sleeps (issued emptyWorld
     (snd (fetchWithRetry (constantEnv (Resolved (respond 429 None)) (1/2)) ''u'' 3 emptyWorld))) = [] \<and>
   fetches (issued emptyWorld
     (snd (fetchWithRetry (constantEnv (Resolved (respond 429 None)) (1/2)) ''u'' 3 emptyWorld))) = 1"
  by (simp add: fetchWithRetry_def fetchWithRetry_loop.simps [of _ _ 3 0] fetch_def
      constantEnv_def respond_def emptyWorld_def issued_def)

subsection \<open>The cache\<close>

lemma getCachedData_absent:
  "cache w key = None \<Longrightarrow> fst (getCachedData key w) = Null"
  by (simp add: getCachedData_def)

text \<open>
  C4. For an entry stored under a key: a \<open>getCachedData\<close> at a time strictly before
  \<open>timestamp + ttl\<close> returns the stored data and leaves the world as it is; a
  \<open>getCachedData\<close> at or after that time returns \<open>null\<close> and deletes the entry, after
  which every get of the key returns \<open>null\<close>, at whatever time, until a \<open>setCachedData\<close>
  stores a value again, which a get before the new expiry then returns.
\<close>

theorem cache_ttl:
  assumes "cache w key = Some e"
  shows "(now w < timestamp e + ttl e \<longrightarrow> getCachedData key w = (data e, w)) \<and>
         (timestamp e + ttl e \<le> now w \<longrightarrow>
            getCachedData key w = (Null, w\<lparr>cache := (cache w)(key := None)\<rparr>) \<and>
            (\<forall>t. fst (getCachedData key ((snd (getCachedData key w))\<lparr>now := t\<rparr>)) = Null) \<and>
            (\<forall>d life t t'. t' < t + life \<longrightarrow>
               fst (getCachedData key
                 ((setCachedData key d life ((snd (getCachedData key w))\<lparr>now := t\<rparr>))\<lparr>now := t'\<rparr>)) = d))"
  using assms by (auto simp: getCachedData_def setCachedData_def)

theorem cache_ttl_witness:
  "cache (setCachedData ''k'' (Num 7) 30000 emptyWorld) ''k''
     = Some \<lparr>data = Num 7, timestamp = 0, ttl = 30000\<rparr> \<and>
   fst (getCachedData ''k'' ((setCachedData ''k'' (Num 7) 30000 emptyWorld)\<lparr>now := 29999\<rparr>)) = Num 7 \<and>
   fst (getCachedData ''k'' ((setCachedData ''k'' (Num 7) 30000 emptyWorld)\<lparr>now := 30000\<rparr>)) = Null \<and>
   cache (snd (getCachedData ''k'' ((setCachedData ''k'' (Num 7) 30000 emptyWorld)\<lparr>now := 30000\<rparr>))) ''k''
     = None"
  using cache_ttl [of "(setCachedData ''k'' (Num 7) 30000 emptyWorld)\<lparr>now := 29999\<rparr>" "''k''"
      "\<lparr>data = Num 7, timestamp = 0, ttl = 30000\<rparr>"]
    cache_ttl [of "(setCachedData ''k'' (Num 7) 30000 emptyWorld)\<lparr>now := 30000\<rparr>" "''k''"
      "\<lparr>data = Num 7, timestamp = 0, ttl = 30000\<rparr>"]
  by (simp add: setCachedData_def emptyWorld_def)

subsection \<open>The prediction heuristic\<close>

lemma generatePrediction_fields:
  "prediction (fst (generatePrediction E crypto w)) =
     current_price crypto *
       (1 + (rnd E (draws w) * 0.2 - 0.1) + trendFactor crypto + marketCapFactor crypto)"
  "confidence (fst (generatePrediction E crypto w)) =
     max 0.5 (min 0.95 (baseConfidence + priceStability crypto + marketCapStability crypto +
       rnd E (Suc (draws w)) * 0.2))"
  "trend (fst (generatePrediction E crypto w)) =
     (if prediction (fst (generatePrediction E crypto w)) > current_price crypto * 1.03 then Bullish
      else if prediction (fst (generatePrediction E crypto w)) < current_price crypto * 0.97
      then Bearish else Neutral)"
  "draws (snd (generatePrediction E crypto w)) = draws w + 2"
  by (simp_all add: generatePrediction_def random_def Let_def)

lemma confidence_clamped:
  "0.5 \<le> confidence (fst (generatePrediction E crypto w)) \<and>
   confidence (fst (generatePrediction E crypto w)) \<le> 0.95"
proof -
  have "(0.5::real) \<le> max 0.5 (min 0.95 x) \<and> max 0.5 (min 0.95 x) \<le> (0.95::real)" for x
    by (auto simp: max_def min_def)
  then show ?thesis
    by (simp only: generatePrediction_fields(2))
qed

lemma price_thresholds_ordered:
  "0 \<le> (p::real) \<Longrightarrow> \<not> (x > p * 1.03 \<and> x < p * 0.97)"
proof
  assume nonneg: "0 \<le> p" and both: "x > p * 1.03 \<and> x < p * 0.97"
  then have "p * 1.03 < p * 0.97" by linarith
  with nonneg show False by simp
qed

text \<open>
  C7 (as the code has it). For every snapshot and every pair of random draws the
  confidence lies in \<open>[0.5, 0.95]\<close>, the predicted price is
  \<open>current_price * (1 + volatility + trend term + rank adjustment)\<close>, and the trend is
  bullish exactly when the prediction exceeds \<open>current_price * 1.03\<close>, bearish exactly when
  it does not and is below \<open>current_price * 0.97\<close>, neutral otherwise. For a snapshot whose
  \<open>current_price\<close> is not negative the trend is bearish exactly when the prediction is
  below \<open>current_price * 0.97\<close>.
\<close>

theorem prediction_bounds:
  "0.5 \<le> confidence (fst (generatePrediction E crypto w)) \<and>
   confidence (fst (generatePrediction E crypto w)) \<le> 0.95 \<and>
   prediction (fst (generatePrediction E crypto w)) =
     current_price crypto *
       (1 + (rnd E (draws w) * 0.2 - 0.1) + trendFactor crypto + marketCapFactor crypto) \<and>
   ((trend (fst (generatePrediction E crypto w)) = Bullish) =
      (prediction (fst (generatePrediction E crypto w)) > current_price crypto * 1.03)) \<and>
   ((trend (fst (generatePrediction E crypto w)) = Bearish) =
      (prediction (fst (generatePrediction E crypto w)) < current_price crypto * 0.97 \<and>
       \<not> prediction (fst (generatePrediction E crypto w)) > current_price crypto * 1.03)) \<and>
   ((trend (fst (generatePrediction E crypto w)) = Neutral) =
      (\<not> prediction (fst (generatePrediction E crypto w)) > current_price crypto * 1.03 \<and>
       \<not> prediction (fst (generatePrediction E crypto w)) < current_price crypto * 0.97)) \<and>
   (0 \<le> current_price crypto \<longrightarrow>
      (trend (fst (generatePrediction E crypto w)) = Bearish) =
      (prediction (fst (generatePrediction E crypto w)) < current_price crypto * 0.97))"
proof -
  let ?p = "fst (generatePrediction E crypto w)"
  have lab: "trend ?p =
     (if prediction ?p > current_price crypto * 1.03 then Bullish
      else if prediction ?p < current_price crypto * 0.97 then Bearish else Neutral)"
    by (rule generatePrediction_fields(3))
  have bull: "(trend ?p = Bullish) = (prediction ?p > current_price crypto * 1.03)"
    by (subst lab) simp
  have bear: "(trend ?p = Bearish) =
      (prediction ?p < current_price crypto * 0.97 \<and> \<not> prediction ?p > current_price crypto * 1.03)"
    by (subst lab) auto
  have neut: "(trend ?p = Neutral) =
      (\<not> prediction ?p > current_price crypto * 1.03 \<and> \<not> prediction ?p < current_price crypto * 0.97)"
    by (subst lab) auto
  have pos: "(trend ?p = Bearish) = (prediction ?p < current_price crypto * 0.97)"
    if "0 \<le> current_price crypto"
    using bear price_thresholds_ordered [OF that, of "prediction ?p"] by blast
  show ?thesis
    using confidence_clamped [of E crypto w] generatePrediction_fields(1) [of E crypto w]
      bull bear neut pos by blast
qed

theorem prediction_bounds_witness:
  "0 \<le> current_price (sampleCoin 100 (Some (- 1))) \<and>
   prediction (fst (generatePrediction (constantEnv (Rejected NetworkError) (2/5))
     (sampleCoin 100 (Some (- 1))) emptyWorld)) = 91 \<and>
   trend (fst (generatePrediction (constantEnv (Rejected NetworkError) (2/5))
     (sampleCoin 100 (Some (- 1))) emptyWorld)) = Bearish \<and>
   confidence (fst (generatePrediction (constantEnv (Rejected NetworkError) (2/5))
     (sampleCoin 100 (Some (- 1))) emptyWorld)) = 0.83"
  using prediction_bounds [of "constantEnv (Rejected NetworkError) (2/5)"
      "sampleCoin 100 (Some (- 1))" emptyWorld]
  by (simp add: generatePrediction_fields sampleCoin_def constantEnv_def emptyWorld_def
      trendFactor_def marketCapFactor_def priceStability_def marketCapStability_def
      baseConfidence_def toNumber_def)

text \<open>
  C7 as stated fails for a snapshot with a negative price: with \<open>current_price = -100\<close>,
  a positive 24h change, rank 999 and a first random draw of 0.4 the prediction is
  \<open>-101\<close>, which is below \<open>current_price * 0.97 = -97\<close>, yet the trend is bullish, the
  first test \<open>-101 > -103\<close> having succeeded.
\<close>

theorem prediction_bearish_counterexample:
  "prediction (fst (generatePrediction (constantEnv (Rejected NetworkError) (2/5))
     (sampleCoin (- 100) (Some 1)) emptyWorld)) = - 101 \<and>
   prediction (fst (generatePrediction (constantEnv (Rejected NetworkError) (2/5))
     (sampleCoin (- 100) (Some 1)) emptyWorld))
     < current_price (sampleCoin (- 100) (Some 1)) * 0.97 \<and>
   trend (fst (generatePrediction (constantEnv (Rejected NetworkError) (2/5))
     (sampleCoin (- 100) (Some 1)) emptyWorld)) = Bullish"
  by (simp add: generatePrediction_fields sampleCoin_def constantEnv_def emptyWorld_def
      trendFactor_def marketCapFactor_def toNumber_def)

text \<open>
  C10. On a snapshot whose \<open>price_change_percentage_24h\<close> is \<open>null\<close>,
  \<open>generatePrediction\<close> returns (the model has no exception path, the comparison and
  \<open>Math.abs\<close> converting \<open>null\<close> to 0): the trend contribution is \<open>-0.05\<close>, the one of every
  non-positive change; the stability term is \<open>+0.1\<close>, the one of a change of magnitude 0;
  the whole result equals that for a 24h change of 0; so the confidence lies in
  \<open>[0.5, 0.95]\<close> and the trend label follows the thresholds as for any other snapshot.
\<close>

theorem prediction_null_change:
  assumes "price_change_percentage_24h crypto = None"
  shows "trendFactor crypto = - 0.05 \<and>
         (\<forall>x\<le>0. trendFactor (crypto\<lparr>price_change_percentage_24h := Some x\<rparr>) = trendFactor crypto) \<and>
         priceStability crypto = 0.1 \<and>
         priceStability (crypto\<lparr>price_change_percentage_24h := Some 0\<rparr>) = priceStability crypto \<and>
         generatePrediction E crypto w =
           generatePrediction E (crypto\<lparr>price_change_percentage_24h := Some 0\<rparr>) w \<and>
         0.5 \<le> confidence (fst (generatePrediction E crypto w)) \<and>
         confidence (fst (generatePrediction E crypto w)) \<le> 0.95 \<and>
         confidence (fst (generatePrediction E crypto w)) =
           max 0.5 (min 0.95 (0.7 + 0.1 + marketCapStability crypto + rnd E (Suc (draws w)) * 0.2)) \<and>
         prediction (fst (generatePrediction E crypto w)) =
           current_price crypto *
             (1 + (rnd E (draws w) * 0.2 - 0.1) + (- 0.05) + marketCapFactor crypto) \<and>
         ((trend (fst (generatePrediction E crypto w)) = Bullish) =
            (prediction (fst (generatePrediction E crypto w)) > current_price crypto * 1.03)) \<and>
         (0 \<le> current_price crypto \<longrightarrow>
            (trend (fst (generatePrediction E crypto w)) = Bearish) =
            (prediction (fst (generatePrediction E crypto w)) < current_price crypto * 0.97))"
proof -
  let ?p = "fst (generatePrediction E crypto w)"
  have tf: "trendFactor crypto = - 0.05"
    using assms by (simp add: trendFactor_def toNumber_def)
  have tf': "\<forall>x\<le>0. trendFactor (crypto\<lparr>price_change_percentage_24h := Some x\<rparr>) = trendFactor crypto"
    using assms by (simp add: trendFactor_def toNumber_def)
  have ps: "priceStability crypto = 0.1"
    using assms by (simp add: priceStability_def toNumber_def)
  have ps': "priceStability (crypto\<lparr>price_change_percentage_24h := Some 0\<rparr>) = priceStability crypto"
    using assms by (simp add: priceStability_def toNumber_def)
  have same: "generatePrediction E crypto w =
      generatePrediction E (crypto\<lparr>price_change_percentage_24h := Some 0\<rparr>) w"
  proof -
    have "marketCapFactor (crypto\<lparr>price_change_percentage_24h := Some 0\<rparr>) = marketCapFactor crypto"
      by (simp add: marketCapFactor_def)
    moreover have "marketCapStability (crypto\<lparr>price_change_percentage_24h := Some 0\<rparr>) =
        marketCapStability crypto"
      by (simp add: marketCapStability_def)
    moreover have "trendFactor (crypto\<lparr>price_change_percentage_24h := Some 0\<rparr>) = trendFactor crypto"
      using tf' by simp
    ultimately show ?thesis
      by (simp add: generatePrediction_def ps' cong: if_cong)
  qed
  have conf: "confidence ?p =
      max 0.5 (min 0.95 (0.7 + 0.1 + marketCapStability crypto + rnd E (Suc (draws w)) * 0.2))"
    by (simp add: generatePrediction_fields(2) ps baseConfidence_def)
  have pred: "prediction ?p =
      current_price crypto * (1 + (rnd E (draws w) * 0.2 - 0.1) + (- 0.05) + marketCapFactor crypto)"
    by (simp add: generatePrediction_fields(1) tf)
  have lab: "trend ?p =
     (if prediction ?p > current_price crypto * 1.03 then Bullish
      else if prediction ?p < current_price crypto * 0.97 then Bearish else Neutral)"
    by (rule generatePrediction_fields(3))
  have bull: "(trend ?p = Bullish) = (prediction ?p > current_price crypto * 1.03)"
    by (subst lab) simp
  have bear: "(trend ?p = Bearish) = (prediction ?p < current_price crypto * 0.97)"
    if "0 \<le> current_price crypto"
    using price_thresholds_ordered [OF that, of "prediction ?p"] by (subst lab) auto
  show ?thesis
    using tf tf' ps ps' same confidence_clamped [of E crypto w] conf pred bull bear by blast
qed

theorem prediction_null_change_witness:
  "price_change_percentage_24h (sampleCoin 100 None) = None \<and>
   0 \<le> current_price (sampleCoin 100 None) \<and>
   trendFactor (sampleCoin 100 None) = - 0.05 \<and>
   priceStability (sampleCoin 100 None) = 0.1 \<and>
   prediction (fst (generatePrediction (constantEnv (Rejected NetworkError) (2/5))
     (sampleCoin 100 None) emptyWorld)) = 91 \<and>
   confidence (fst (generatePrediction (constantEnv (Rejected NetworkError) (2/5))
     (sampleCoin 100 None) emptyWorld)) = 0.83 \<and>
   trend (fst (generatePrediction (constantEnv (Rejected NetworkError) (2/5))
     (sampleCoin 100 None) emptyWorld)) = Bearish"
  using prediction_null_change [of "sampleCoin 100 None"
      "constantEnv (Rejected NetworkError) (2/5)" emptyWorld]
  by (simp add: generatePrediction_fields sampleCoin_def constantEnv_def emptyWorld_def
      marketCapFactor_def marketCapStability_def baseConfidence_def)

subsection \<open>Cache keys\<close>

lemma takeWhile_upto:
  "c \<notin> set x \<Longrightarrow> takeWhile (\<lambda>d. d \<noteq> c) (x @ c # s) = x"
  by (induction x) auto

lemma comma_split:
  assumes "CHR '','' \<notin> set x" "CHR '','' \<notin> set y" "x @ CHR '','' # s = y @ CHR '','' # t"
  shows "x = y \<and> s = t"
proof -
  have "takeWhile (\<lambda>c. c \<noteq> CHR '','') (x @ CHR '','' # s) = x"
    using assms(1) by (rule takeWhile_upto)
  moreover have "takeWhile (\<lambda>c. c \<noteq> CHR '','') (y @ CHR '','' # t) = y"
    using assms(2) by (rule takeWhile_upto)
  ultimately have "x = y" using assms(3) by simp
  with assms(3) show ?thesis by simp
qed

lemma join_comma_inj:
  assumes "\<forall>x\<in>set xs. CHR '','' \<notin> set x" "\<forall>y\<in>set ys. CHR '','' \<notin> set y"
    "xs \<noteq> []" "ys \<noteq> []" "join '','' xs = join '','' ys"
  shows "xs = ys"
  using assms
proof (induction xs arbitrary: ys)
  case Nil
  then show ?case by simp
next
  case (Cons x xs')
  from Cons.prems(4) obtain y ys' where ys: "ys = y # ys'" by (cases ys) auto
  have cx: "CHR '','' \<notin> set x" and cy: "CHR '','' \<notin> set y"
    using Cons.prems(1,2) ys by auto
  show ?case
  proof (cases xs')
    case xnil: Nil
    show ?thesis
    proof (cases ys')
      case Nil
      with xnil ys Cons.prems(5) show ?thesis by simp
    next
      case (Cons y2 ys2)
      with xnil ys Cons.prems(5) have "x = y @ CHR '','' # join '','' (y2 # ys2)" by simp
      then have "CHR '','' \<in> set x" by simp
      with cx show ?thesis by simp
    qed
  next
    case xcons: (Cons x2 xs2)
    show ?thesis
    proof (cases ys')
      case Nil
      with xcons ys Cons.prems(5) have "y = x @ CHR '','' # join '','' (x2 # xs2)" by simp
      then have "CHR '','' \<in> set y" by simp
      with cy show ?thesis by simp
    next
      case (Cons y2 ys2)
      with xcons ys Cons.prems(5)
      have "x @ CHR '','' # join '','' xs' = y @ CHR '','' # join '','' ys'" by simp
      from comma_split [OF cx cy this] have xy: "x = y" and rest: "join '','' xs' = join '','' ys'"
        by simp_all
      have "xs' = ys'"
        using Cons.IH [of ys'] Cons.prems(1,2) ys xcons Cons rest by simp
      with xy ys show ?thesis by simp
    qed
  qed
qed

text \<open>
  C2 (as the code has it). The market-listing key is \<open>cryptos-\<close> followed by the
  identifiers joined with commas in the order given; nothing sorts them. Two non-empty
  lists of identifiers that contain no comma compute the same key exactly when they are
  the same list, in the same order.
\<close>

theorem cryptosKey_same_list:
  assumes "ids \<noteq> []" "ids' \<noteq> []" "\<forall>i\<in>set ids \<union> set ids'. CHR '','' \<notin> set i"
  shows "(cryptosKey ids = cryptosKey ids') = (ids = ids')"
proof
  assume "cryptosKey ids = cryptosKey ids'"
  then have "join '','' ids = join '','' ids'" by (simp add: cryptosKey_def)
  with assms show "ids = ids'" by (intro join_comma_inj) auto
next
  assume "ids = ids'"
  then show "cryptosKey ids = cryptosKey ids'" by simp
qed

theorem cryptosKey_same_list_witness:
  "[''bitcoin'', ''ethereum''] \<noteq> [] \<and> [''ethereum'', ''bitcoin''] \<noteq> [] \<and>
   CHR '','' \<notin> set ''bitcoin'' \<and> CHR '','' \<notin> set ''ethereum'' \<and>
   cryptosKey [''bitcoin'', ''ethereum''] \<noteq> cryptosKey [''ethereum'', ''bitcoin''] \<and>
   cryptosKey [''bitcoin'', ''ethereum''] = ''cryptos-bitcoin,ethereum''"
  using cryptosKey_same_list [of "[''bitcoin'', ''ethereum'']" "[''ethereum'', ''bitcoin'']"]
  by (simp add: cryptosKey_def)

text \<open>
  C2 as stated fails twice: the lists \<open>[bitcoin, ethereum]\<close> and \<open>[ethereum, bitcoin]\<close>
  are permutations of each other with different keys, so that after a successful lookup
  of the first the cache holds nothing under the key of the second; and the distinct
  lists \<open>["a,b"]\<close> and \<open>["a", "b"]\<close> have the same key.
\<close>

theorem cryptosKey_counterexample:
  "mset [''bitcoin'', ''ethereum''] = mset [''ethereum'', ''bitcoin''] \<and>
   cryptosKey [''bitcoin'', ''ethereum''] \<noteq> cryptosKey [''ethereum'', ''bitcoin''] \<and>
   cache (snd (fetchCryptocurrencies (constantEnv (Resolved (respond 200 (Some (Arr [])))) (1/2))
                 [''bitcoin'', ''ethereum''] emptyWorld))
     (cryptosKey [''bitcoin'', ''ethereum'']) = Some \<lparr>data = Arr [], timestamp = 0, ttl = 30000\<rparr> \<and>
   cache (snd (fetchCryptocurrencies (constantEnv (Resolved (respond 200 (Some (Arr [])))) (1/2))
                 [''bitcoin'', ''ethereum''] emptyWorld))
     (cryptosKey [''ethereum'', ''bitcoin'']) = None \<and>
   [''a,b''] \<noteq> [''a'', ''b''] \<and>
   cryptosKey [''a,b''] = cryptosKey [''a'', ''b'']"
  by (simp add: cryptosKey_def fetchCryptocurrencies_def getCachedData_def setCachedData_def
      requestJson_def fetchWithRetry_def fetchWithRetry_loop.simps [of _ _ 3 0] fetch_def ok_def
      constantEnv_def respond_def emptyWorld_def)

subsection \<open>What a lookup leaves unchanged\<close>

declare generateMockChartData_loop.simps [simp del]
declare generateMockCandlestickData_loop.simps [simp del]

lemma loop_first_fetch:
  assumes "int attempt \<le> retries"
  shows "\<exists>es. trace (snd (fetchWithRetry_loop E url retries attempt w)) = trace w @ Fetched url # es"
proof -
  have rec: "\<exists>es. trace (snd (fetchWithRetry_loop E url retries (Suc attempt)
               (delay d (snd (fetch E url w))))) = trace w @ Fetched url # es" for d
    using loop_frame [of E url retries "Suc attempt" "delay d (snd (fetch E url w))"]
    by (auto simp: delay_def fetch_def)
  show ?thesis
  proof (cases "net E (trace w) url")
    case (Rejected e)
    with assms rec show ?thesis
      by (subst fetchWithRetry_loop.simps) (auto simp: fetch_def)
  next
    case (Resolved r)
    with assms rec show ?thesis
      by (subst fetchWithRetry_loop.simps) (auto simp: fetch_def split: option.splits)
  qed
qed

lemma requestJson_frame:
  "cache (snd (requestJson E url msg w)) = cache w"
  "draws (snd (requestJson E url msg w)) = draws w"
  "\<exists>es. trace (snd (requestJson E url msg w)) = trace w @ Fetched url # es"
proof -
  have eq: "snd (requestJson E url msg w) = snd (fetchWithRetry_loop E url 3 0 w)"
    by (simp add: requestJson_def fetchWithRetry_def split: prod.splits sum.splits option.splits)
  show "cache (snd (requestJson E url msg w)) = cache w"
    and "draws (snd (requestJson E url msg w)) = draws w"
    using loop_frame [of E url 3 0 w] by (simp_all add: eq)
  show "\<exists>es. trace (snd (requestJson E url msg w)) = trace w @ Fetched url # es"
    using loop_first_fetch [of 0 3 E url w] by (simp add: eq)
qed

lemma getCachedData_frame:
  "now (snd (getCachedData key w)) = now w"
  "trace (snd (getCachedData key w)) = trace w"
  "draws (snd (getCachedData key w)) = draws w"
  by (simp_all add: getCachedData_def split: option.splits)

lemma getCachedData_cache:
  "cache (snd (getCachedData key w)) k = cache w k \<or> cache (snd (getCachedData key w)) k = None"
  by (simp add: getCachedData_def split: option.splits)

lemma getCachedData_miss_again:
  assumes "\<not> truthy (fst (getCachedData key w))" "cache w' = cache (snd (getCachedData key w))"
  shows "\<not> truthy (fst (getCachedData key w'))"
  using assms by (auto simp: getCachedData_def split: option.splits if_splits)

lemma generateMockChartData_loop_frame:
  "cache (snd (generateMockChartData_loop E t0 points interval i acc w)) = cache w \<and>
   trace (snd (generateMockChartData_loop E t0 points interval i acc w)) = trace w"
proof (induction "points - i" arbitrary: i acc w)
  case 0
  then show ?case
    by (subst (1 2) generateMockChartData_loop.simps) simp
next
  case (Suc k)
  then have "i < points" and "k = points - Suc i" by simp_all
  then show ?case
    using Suc.hyps(1) [of "Suc i"]
    by (subst (1 2) generateMockChartData_loop.simps) (simp add: random_def Let_def)
qed

lemma generateMockChartData_frame:
  "cache (snd (generateMockChartData E tf w)) = cache w"
  "trace (snd (generateMockChartData E tf w)) = trace w"
  using generateMockChartData_loop_frame [of E "now w" "mockPoints tf" "mockInterval tf" 0 "[]" w]
  by (simp_all add: generateMockChartData_def split_def Let_def)

lemma candle_arith:
  fixes opn u2 u3 u4 :: real
  assumes "0 \<le> u2" "0 \<le> u3" "0 \<le> u4" "u4 \<le> 1"
  shows "opn - u3 * 500 \<le> opn" "opn \<le> opn + u2 * 500"
    "opn - u3 * 500 \<le> opn - u3 * 500 + u4 * (opn + u2 * 500 - (opn - u3 * 500))"
    "opn - u3 * 500 + u4 * (opn + u2 * 500 - (opn - u3 * 500)) \<le> opn + u2 * 500"
proof -
  let ?range = "opn + u2 * 500 - (opn - u3 * 500)"
  have range: "0 \<le> ?range" using assms(1,2) by simp
  show "opn - u3 * 500 \<le> opn" using assms(2) by simp
  show "opn \<le> opn + u2 * 500" using assms(1) by simp
  have "0 \<le> u4 * ?range" using assms(3) range by (rule mult_nonneg_nonneg)
  then show "opn - u3 * 500 \<le> opn - u3 * 500 + u4 * ?range" by simp
  have "u4 * ?range \<le> 1 * ?range" using assms(4) range by (rule mult_right_mono)
  then show "opn - u3 * 500 + u4 * ?range \<le> opn + u2 * 500" by simp
qed

lemma candleOk_literal:
  "candleOk (Obj [(''timestamp'', t), (''open'', Num opn), (''high'', Num high),
                  (''low'', Num low), (''close'', Num cls), (''volume'', Num volume)]) =
   (low \<le> opn \<and> opn \<le> high \<and> low \<le> cls \<and> cls \<le> high \<and> 0 \<le> volume)"
  by (simp add: candleOk_def field_def numOf_def)

lemma generateMockCandlestickData_loop_ok:
  assumes rnd: "\<forall>k. 0 \<le> rnd E k \<and> rnd E k < 1"
  shows "list_all candleOk acc \<Longrightarrow>
         list_all candleOk (fst (generateMockCandlestickData_loop E t0 points interval i lastClose acc w))"
proof (induction "points - i" arbitrary: i lastClose acc w)
  case 0
  then show ?case
    by (subst generateMockCandlestickData_loop.simps) simp
next
  case (Suc k)
  then have lt: "i < points" and k: "k = points - Suc i" by simp_all
  let ?u1 = "rnd E (draws w)" and ?u2 = "rnd E (Suc (draws w))"
    and ?u3 = "rnd E (Suc (Suc (draws w)))" and ?u4 = "rnd E (Suc (Suc (Suc (draws w))))"
    and ?u5 = "rnd E (Suc (Suc (Suc (Suc (draws w)))))"
  let ?opn = "lastClose + (?u1 - 0.5) * 100"
  have u: "0 \<le> ?u2" "0 \<le> ?u3" "0 \<le> ?u4" "?u4 \<le> 1" "0 \<le> ?u5"
    using rnd by (simp_all add: less_imp_le)
  have "candleOk (Obj [(''timestamp'', Num (real_of_int (t0 - (int points - int i) * interval))),
          (''open'', Num ?opn), (''high'', Num (?opn + ?u2 * 500)),
          (''low'', Num (?opn - ?u3 * 500)),
          (''close'', Num (?opn - ?u3 * 500 + ?u4 * (?opn + ?u2 * 500 - (?opn - ?u3 * 500)))),
          (''volume'', Num (?u5 * 1000000))])"
    unfolding candleOk_literal
    using candle_arith [OF u(1-4), of ?opn] u(5) by simp
  with Suc.prems have acc': "list_all candleOk (acc @
        [Obj [(''timestamp'', Num (real_of_int (t0 - (int points - int i) * interval))),
          (''open'', Num ?opn), (''high'', Num (?opn + ?u2 * 500)),
          (''low'', Num (?opn - ?u3 * 500)),
          (''close'', Num (?opn - ?u3 * 500 + ?u4 * (?opn + ?u2 * 500 - (?opn - ?u3 * 500)))),
          (''volume'', Num (?u5 * 1000000))]])"
    by simp
  show ?case
    using lt Suc.hyps(1) [OF k acc']
    by (subst generateMockCandlestickData_loop.simps) (simp add: random_def Let_def)
qed

lemma generateMockCandlestickData_loop_length:
  "i \<le> points \<Longrightarrow>
   length (fst (generateMockCandlestickData_loop E t0 points interval i lastClose acc w)) =
   length acc + (points - i)"
proof (induction "points - i" arbitrary: i lastClose acc w)
  case 0
  then show ?case
    by (subst generateMockCandlestickData_loop.simps) simp
next
  case (Suc k)
  then have lt: "i < points" and k: "k = points - Suc i" and le: "Suc i \<le> points" by simp_all
  show ?case
    using lt Suc.hyps(1) [OF k le]
    by (subst generateMockCandlestickData_loop.simps) (simp add: random_def Let_def)
qed

lemma generateMockCandlestickData_loop_frame:
  "cache (snd (generateMockCandlestickData_loop E t0 points interval i lastClose acc w)) = cache w \<and>
   trace (snd (generateMockCandlestickData_loop E t0 points interval i lastClose acc w)) = trace w"
proof (induction "points - i" arbitrary: i lastClose acc w)
  case 0
  then show ?case
    by (subst (1 2) generateMockCandlestickData_loop.simps) simp
next
  case (Suc k)
  then have "i < points" and "k = points - Suc i" by simp_all
  then show ?case
    using Suc.hyps(1) [of "Suc i"]
    by (subst (1 2) generateMockCandlestickData_loop.simps) (simp add: random_def Let_def)
qed

lemma generateMockCandlestickData_frame:
  "cache (snd (generateMockCandlestickData E tf w)) = cache w"
  "trace (snd (generateMockCandlestickData E tf w)) = trace w"
  using generateMockCandlestickData_loop_frame
    [of E "now w" "mockPoints tf" "mockInterval tf" 0 43000 "[]" w]
  by (simp_all add: generateMockCandlestickData_def split_def Let_def)

lemma generateMockCandlestickData_ok:
  assumes "\<forall>k. 0 \<le> rnd E k \<and> rnd E k < 1"
  shows "list_all candleOk (elems (fst (generateMockCandlestickData E tf w)))"
    and "length (elems (fst (generateMockCandlestickData E tf w))) = mockPoints tf"
  using generateMockCandlestickData_loop_ok
    [OF assms, of "[]" "now w" "mockPoints tf" "mockInterval tf" 0 43000 w]
    generateMockCandlestickData_loop_length
    [of 0 "mockPoints tf" E "now w" "mockInterval tf" 43000 "[]" w]
  by (simp_all add: generateMockCandlestickData_def split_def Let_def elems_def)

subsection \<open>Parsing OHLC rows\<close>

lemma destructure_elemAt:
  assumes "destructure n x = Inr vs"
  shows "length vs = n" and "\<forall>i<n. vs ! i = elemAt x i"
  using assms by (cases x; auto simp: destructure_def elemAt_def)+

lemma candlesOf_frame:
  "cache (snd (candlesOf E rows w)) = cache w \<and> trace (snd (candlesOf E rows w)) = trace w"
proof (induction rows arbitrary: w)
  case Nil
  show ?case by simp
next
  case (Cons x xs)
  show ?case
  proof (cases "destructure 5 x")
    case (Inl e)
    then show ?thesis by simp
  next
    case (Inr vs)
    then show ?thesis
      using Cons [of "snd (random E w)"]
      by (simp add: random_def split_def Let_def split: sum.splits)
  qed
qed

lemma candlesOf_Inr:
  "candlesOf E rows w = (Inr cs, w') \<Longrightarrow>
   length cs = length rows \<and>
   (\<forall>i<length rows. cs ! i = parsedCandle (rows ! i) (rnd E (draws w + i)))"
proof (induction rows arbitrary: w cs)
  case Nil
  then show ?case by simp
next
  case (Cons x xs)
  from Cons.prems obtain vs where vs: "destructure 5 x = Inr vs"
    by (cases "destructure 5 x") auto
  let ?w1 = "w\<lparr>draws := Suc (draws w)\<rparr>"
  from Cons.prems vs obtain cs' where tl: "candlesOf E xs ?w1 = (Inr cs', w')"
    and cs: "cs = Obj [(''timestamp'', vs ! 0), (''open'', vs ! 1), (''high'', vs ! 2),
                       (''low'', vs ! 3), (''close'', vs ! 4),
                       (''volume'', Num (rnd E (draws w) * 1000000))] # cs'"
    by (auto simp: random_def Let_def split: prod.splits sum.splits)
  have hd: "cs ! 0 = parsedCandle x (rnd E (draws w))"
    using destructure_elemAt(2) [OF vs] by (simp add: cs parsedCandle_def)
  from Cons.IH [OF tl] have len: "length cs' = length xs"
    and rest: "\<forall>i<length xs. cs' ! i = parsedCandle (xs ! i) (rnd E (Suc (draws w) + i))"
    by simp_all
  have "cs ! i = parsedCandle ((x # xs) ! i) (rnd E (draws w + i))" if "i < length (x # xs)" for i
  proof (cases i)
    case 0
    with hd show ?thesis by simp
  next
    case (Suc j)
    with that rest show ?thesis by (simp add: cs)
  qed
  with len cs show ?case by simp
qed

lemma fetchCandlestickData_parsed:
  assumes "\<not> truthy (fst (getCachedData (candlestickKey ident tf) w))"
    and "requestJson E (candlestickUrl E ident tf) ''Failed to fetch candlestick data''
           (snd (getCachedData (candlestickKey ident tf) w)) = (Inr (Arr rows), w2)"
    and "candlesOf E rows w2 = (Inr cs, w3)"
  shows "fetchCandlestickData E ident tf w =
           (Arr cs, setCachedData (candlestickKey ident tf) (Arr cs) 30000 w3)"
  using assms by (simp add: fetchCandlestickData_def split_def asArray_def)

lemma candleOk_parsed:
  "0 \<le> u \<Longrightarrow>
   candleOk (parsedCandle (Arr [Num t, Num opn, Num high, Num low, Num cls]) u) =
   (low \<le> opn \<and> opn \<le> high \<and> low \<le> cls \<and> cls \<le> high)"
  by (simp add: parsedCandle_def elemAt_def candleOk_literal)

lemma destructure_five:
  "destructure 5 (Arr (a # b # c # d # e # rest)) = Inr [a, b, c, d, e]"
proof -
  have "[0..<5] = [0, 1, 2, 3, 4::nat]"
    by (simp add: upt_rec numeral_eq_Suc)
  then show ?thesis by (simp add: destructure_def)
qed

lemma servingEnv_request:
  "requestJson (servingEnv payload) url msg w =
     (Inr payload, w\<lparr>trace := trace w @ [Fetched url]\<rparr>)"
  by (simp add: requestJson_def fetchWithRetry_def fetchWithRetry_loop.simps [of _ _ 3 0]
      fetch_def ok_def servingEnv_def constantEnv_def respond_def)

lemma emptyWorld_miss:
  "getCachedData key emptyWorld = (Null, emptyWorld)"
  by (simp add: getCachedData_def emptyWorld_def)

text \<open>
  C9 (as the code has it). With random draws in \<open>[0, 1)\<close>, every candle of the synthetic
  generator satisfies \<open>low \<le> open \<le> high\<close>, \<open>low \<le> close \<le> high\<close> and has a volume
  \<open>\<ge> 0\<close> (in exact arithmetic). A candle parsed from an upstream OHLC payload carries the
  first five positions of its row unchanged, unchecked, and a synthetic volume \<open>\<ge> 0\<close>: for a
  row of five numbers it satisfies the ordering exactly when the row does.
\<close>

theorem candle_invariant:
  assumes "\<forall>k. 0 \<le> rnd E k \<and> rnd E k < 1"
  shows "list_all candleOk (elems (fst (generateMockCandlestickData E tf w))) \<and>
         length (elems (fst (generateMockCandlestickData E tf w))) = mockPoints tf \<and>
         (\<forall>rows w2 cs w3.
            \<not> truthy (fst (getCachedData (candlestickKey ident tf) w)) \<and>
            requestJson E (candlestickUrl E ident tf) ''Failed to fetch candlestick data''
              (snd (getCachedData (candlestickKey ident tf) w)) = (Inr (Arr rows), w2) \<and>
            candlesOf E rows w2 = (Inr cs, w3) \<longrightarrow>
            fst (fetchCandlestickData E ident tf w) = Arr cs \<and>
            length cs = length rows \<and>
            (\<forall>i<length rows.
               cs ! i = parsedCandle (rows ! i) (rnd E (draws w2 + i)) \<and>
               (\<forall>t opn high low cls.
                  rows ! i = Arr [Num t, Num opn, Num high, Num low, Num cls] \<longrightarrow>
                  candleOk (cs ! i) = (low \<le> opn \<and> opn \<le> high \<and> low \<le> cls \<and> cls \<le> high))))"
proof (intro conjI allI impI)
  show "list_all candleOk (elems (fst (generateMockCandlestickData E tf w)))"
    by (rule generateMockCandlestickData_ok(1) [OF assms])
  show "length (elems (fst (generateMockCandlestickData E tf w))) = mockPoints tf"
    by (rule generateMockCandlestickData_ok(2) [OF assms])
next
  fix rows w2 cs w3
  assume h: "\<not> truthy (fst (getCachedData (candlestickKey ident tf) w)) \<and>
            requestJson E (candlestickUrl E ident tf) ''Failed to fetch candlestick data''
              (snd (getCachedData (candlestickKey ident tf) w)) = (Inr (Arr rows), w2) \<and>
            candlesOf E rows w2 = (Inr cs, w3)"
  then show "fst (fetchCandlestickData E ident tf w) = Arr cs"
    using fetchCandlestickData_parsed [of ident tf w E rows w2 cs w3] by simp
  from h show "length cs = length rows"
    using candlesOf_Inr [of E rows w2 cs w3] by simp
next
  fix rows w2 cs w3 i
  assume h: "\<not> truthy (fst (getCachedData (candlestickKey ident tf) w)) \<and>
            requestJson E (candlestickUrl E ident tf) ''Failed to fetch candlestick data''
              (snd (getCachedData (candlestickKey ident tf) w)) = (Inr (Arr rows), w2) \<and>
            candlesOf E rows w2 = (Inr cs, w3)"
    and i: "i < length rows"
  then show eq: "cs ! i = parsedCandle (rows ! i) (rnd E (draws w2 + i))"
    using candlesOf_Inr [of E rows w2 cs w3] by simp
  fix t opn high low cls
  assume "rows ! i = Arr [Num t, Num opn, Num high, Num low, Num cls]"
  then show "candleOk (cs ! i) = (low \<le> opn \<and> opn \<le> high \<and> low \<le> cls \<and> cls \<le> high)"
    using assms by (simp add: eq candleOk_parsed)
qed

theorem candle_invariant_witness:
  "(\<forall>k. 0 \<le> rnd (servingEnv (Arr [Arr [Num 0, Num 10, Num 12, Num 8, Num 11]])) k \<and>
        rnd (servingEnv (Arr [Arr [Num 0, Num 10, Num 12, Num 8, Num 11]])) k < 1) \<and>
   list_all candleOk (elems (fst (generateMockCandlestickData
     (servingEnv (Arr [Arr [Num 0, Num 10, Num 12, Num 8, Num 11]])) Tf_24h emptyWorld))) \<and>
   length (elems (fst (generateMockCandlestickData
     (servingEnv (Arr [Arr [Num 0, Num 10, Num 12, Num 8, Num 11]])) Tf_24h emptyWorld))) = 24 \<and>
   fst (fetchCandlestickData (servingEnv (Arr [Arr [Num 0, Num 10, Num 12, Num 8, Num 11]]))
          ''bitcoin'' Tf_24h emptyWorld) =
     Arr [Obj [(''timestamp'', Num 0), (''open'', Num 10), (''high'', Num 12), (''low'', Num 8),
               (''close'', Num 11), (''volume'', Num 500000)]] \<and>
   candleOk (Obj [(''timestamp'', Num 0), (''open'', Num 10), (''high'', Num 12), (''low'', Num 8),
               (''close'', Num 11), (''volume'', Num 500000)])"
proof -
  let ?E = "servingEnv (Arr [Arr [Num 0, Num 10, Num 12, Num 8, Num 11]])"
  have r: "\<forall>k. 0 \<le> rnd ?E k \<and> rnd ?E k < 1"
    by (simp add: servingEnv_def constantEnv_def)
  have parsed: "fst (fetchCandlestickData ?E ''bitcoin'' Tf_24h emptyWorld) =
     Arr [Obj [(''timestamp'', Num 0), (''open'', Num 10), (''high'', Num 12), (''low'', Num 8),
               (''close'', Num 11), (''volume'', Num 500000)]]"
    by (simp add: fetchCandlestickData_def emptyWorld_miss servingEnv_request asArray_def
        destructure_five random_def)
       (simp add: servingEnv_def constantEnv_def)
  show ?thesis
    using candle_invariant [OF r, of Tf_24h emptyWorld "''bitcoin''"] r parsed
    by (simp add: mockPoints_def candleOk_literal)
qed

text \<open>
  C9 as stated fails on the parsing path: the upstream row \<open>[0, 10, 5, 20, 10]\<close> (open 10,
  high 5, low 20) becomes a candle with exactly these values, which the lookup returns
  and caches.
\<close>

theorem parsed_candle_counterexample:
  "fst (fetchCandlestickData (servingEnv (Arr [Arr [Num 0, Num 10, Num 5, Num 20, Num 10]]))
          ''bitcoin'' Tf_7d emptyWorld) =
     Arr [Obj [(''timestamp'', Num 0), (''open'', Num 10), (''high'', Num 5), (''low'', Num 20),
               (''close'', Num 10), (''volume'', Num 500000)]] \<and>
   \<not> candleOk (Obj [(''timestamp'', Num 0), (''open'', Num 10), (''high'', Num 5), (''low'', Num 20),
               (''close'', Num 10), (''volume'', Num 500000)])"
proof -
  have "fst (fetchCandlestickData (servingEnv (Arr [Arr [Num 0, Num 10, Num 5, Num 20, Num 10]]))
          ''bitcoin'' Tf_7d emptyWorld) =
     Arr [Obj [(''timestamp'', Num 0), (''open'', Num 10), (''high'', Num 5), (''low'', Num 20),
               (''close'', Num 10), (''volume'', Num 500000)]]"
    by (simp add: fetchCandlestickData_def emptyWorld_miss servingEnv_request asArray_def
        destructure_five random_def)
       (simp add: servingEnv_def constantEnv_def)
  then show ?thesis by (simp add: candleOk_literal)
qed

subsection \<open>The fallback of the lookups\<close>

lemma requestJson_fails:
  "fetchFails E url w \<Longrightarrow> \<exists>e. fst (requestJson E url msg w) = Inl e"
  by (auto simp: fetchFails_def requestJson_def split: prod.splits sum.splits)

lemma issued_after_get:
  assumes "trace w2 = trace (snd (getCachedData key w)) @ es"
  shows "issued w w2 = es"
  using assms by (simp add: issued_def getCachedData_frame)

lemma fetchCryptocurrencies_fallback:
  assumes "\<not> truthy (fst (getCachedData (cryptosKey ids) w))"
    and "fetchFails E (cryptosUrl E ids) (snd (getCachedData (cryptosKey ids) w))"
  shows "fst (fetchCryptocurrencies E ids w) =
           generateMockData E ids (snd (fetchCryptocurrencies E ids w))"
    and "cache (snd (fetchCryptocurrencies E ids w)) = cache (snd (getCachedData (cryptosKey ids) w))"
proof -
  from requestJson_fails [OF assms(2)] obtain e where
    "fst (requestJson E (cryptosUrl E ids) ''Failed to fetch data''
       (snd (getCachedData (cryptosKey ids) w))) = Inl e" by blast
  then show "fst (fetchCryptocurrencies E ids w) =
           generateMockData E ids (snd (fetchCryptocurrencies E ids w))"
    and "cache (snd (fetchCryptocurrencies E ids w)) = cache (snd (getCachedData (cryptosKey ids) w))"
    using assms(1)
      requestJson_frame(1) [of E "cryptosUrl E ids" "''Failed to fetch data''"
        "snd (getCachedData (cryptosKey ids) w)"]
    by (auto simp: fetchCryptocurrencies_def split_def Let_def split: prod.splits sum.splits)
qed

lemma fetchCryptocurrencies_refetch:
  assumes "\<not> truthy (fst (getCachedData (cryptosKey ids) w))"
  shows "\<exists>es. issued w (snd (fetchCryptocurrencies E ids w)) = Fetched (cryptosUrl E ids) # es"
proof -
  obtain es where "trace (snd (requestJson E (cryptosUrl E ids) ''Failed to fetch data''
       (snd (getCachedData (cryptosKey ids) w)))) =
     trace (snd (getCachedData (cryptosKey ids) w)) @ Fetched (cryptosUrl E ids) # es"
    using requestJson_frame(3) by blast
  then have "trace (snd (fetchCryptocurrencies E ids w)) =
     trace (snd (getCachedData (cryptosKey ids) w)) @ Fetched (cryptosUrl E ids) # es"
    using assms
    by (auto simp: fetchCryptocurrencies_def split_def Let_def setCachedData_def
        split: prod.splits sum.splits)
  then show ?thesis using issued_after_get by blast
qed

lemma fetchDetailedCoinData_fallback:
  assumes "\<not> truthy (fst (getCachedData (detailedKey ident) w))"
    and "fetchFails E (detailedUrl E ident) (snd (getCachedData (detailedKey ident) w))"
  shows "fst (fetchDetailedCoinData E ident w) = generateMockDetailedData E ident (snd (fetchDetailedCoinData E ident w))"
    and "cache (snd (fetchDetailedCoinData E ident w)) = cache (snd (getCachedData (detailedKey ident) w))"
proof -
  from requestJson_fails [OF assms(2)] obtain e where
    "fst (requestJson E (detailedUrl E ident) ''Failed to fetch detailed data''
       (snd (getCachedData (detailedKey ident) w))) = Inl e" by blast
  then show "fst (fetchDetailedCoinData E ident w) = generateMockDetailedData E ident (snd (fetchDetailedCoinData E ident w))"
    and "cache (snd (fetchDetailedCoinData E ident w)) = cache (snd (getCachedData (detailedKey ident) w))"
    using assms(1)
      requestJson_frame(1) [of E "detailedUrl E ident" "''Failed to fetch detailed data''"
        "snd (getCachedData (detailedKey ident) w)"]
    by (auto simp: fetchDetailedCoinData_def split_def Let_def split: prod.splits sum.splits)
qed

lemma fetchDetailedCoinData_refetch:
  assumes "\<not> truthy (fst (getCachedData (detailedKey ident) w))"
  shows "\<exists>es. issued w (snd (fetchDetailedCoinData E ident w)) = Fetched (detailedUrl E ident) # es"
proof -
  obtain es where "trace (snd (requestJson E (detailedUrl E ident) ''Failed to fetch detailed data''
       (snd (getCachedData (detailedKey ident) w)))) =
     trace (snd (getCachedData (detailedKey ident) w)) @ Fetched (detailedUrl E ident) # es"
    using requestJson_frame(3) by blast
  then have "trace (snd (fetchDetailedCoinData E ident w)) =
     trace (snd (getCachedData (detailedKey ident) w)) @ Fetched (detailedUrl E ident) # es"
    using assms
    by (auto simp: fetchDetailedCoinData_def split_def Let_def setCachedData_def
        split: prod.splits sum.splits)
  then show ?thesis using issued_after_get by blast
qed

lemma fetchExchanges_fallback:
  assumes "\<not> truthy (fst (getCachedData (exchangesKey) w))"
    and "fetchFails E (exchangesUrl E) (snd (getCachedData (exchangesKey) w))"
  shows "fst (fetchExchanges E w) = generateMockExchanges"
    and "cache (snd (fetchExchanges E w)) = cache (snd (getCachedData (exchangesKey) w))"
proof -
  from requestJson_fails [OF assms(2)] obtain e where
    "fst (requestJson E (exchangesUrl E) ''Failed to fetch exchanges''
       (snd (getCachedData (exchangesKey) w))) = Inl e" by blast
  then show "fst (fetchExchanges E w) = generateMockExchanges"
    and "cache (snd (fetchExchanges E w)) = cache (snd (getCachedData (exchangesKey) w))"
    using assms(1)
      requestJson_frame(1) [of E "exchangesUrl E" "''Failed to fetch exchanges''"
        "snd (getCachedData (exchangesKey) w)"]
    by (auto simp: fetchExchanges_def split_def Let_def split: prod.splits sum.splits)
qed

lemma fetchExchanges_refetch:
  assumes "\<not> truthy (fst (getCachedData (exchangesKey) w))"
  shows "\<exists>es. issued w (snd (fetchExchanges E w)) = Fetched (exchangesUrl E) # es"
proof -
  obtain es where "trace (snd (requestJson E (exchangesUrl E) ''Failed to fetch exchanges''
       (snd (getCachedData (exchangesKey) w)))) =
     trace (snd (getCachedData (exchangesKey) w)) @ Fetched (exchangesUrl E) # es"
    using requestJson_frame(3) by blast
  then have "trace (snd (fetchExchanges E w)) =
     trace (snd (getCachedData (exchangesKey) w)) @ Fetched (exchangesUrl E) # es"
    using assms
    by (auto simp: fetchExchanges_def split_def Let_def setCachedData_def
        split: prod.splits sum.splits)
  then show ?thesis using issued_after_get by blast
qed

lemma fetchTradingPairs_fallback:
  assumes "\<not> truthy (fst (getCachedData (pairsKey coinId) w))"
    and "fetchFails E (pairsUrl E coinId) (snd (getCachedData (pairsKey coinId) w))"
  shows "fst (fetchTradingPairs E coinId w) = generateMockTradingPairs E coinId (snd (fetchTradingPairs E coinId w))"
    and "cache (snd (fetchTradingPairs E coinId w)) = cache (snd (getCachedData (pairsKey coinId) w))"
proof -
  from requestJson_fails [OF assms(2)] obtain e where
    "fst (requestJson E (pairsUrl E coinId) ''Failed to fetch trading pairs''
       (snd (getCachedData (pairsKey coinId) w))) = Inl e" by blast
  then show "fst (fetchTradingPairs E coinId w) = generateMockTradingPairs E coinId (snd (fetchTradingPairs E coinId w))"
    and "cache (snd (fetchTradingPairs E coinId w)) = cache (snd (getCachedData (pairsKey coinId) w))"
    using assms(1)
      requestJson_frame(1) [of E "pairsUrl E coinId" "''Failed to fetch trading pairs''"
        "snd (getCachedData (pairsKey coinId) w)"]
    by (auto simp: fetchTradingPairs_def split_def Let_def split: prod.splits sum.splits)
qed

lemma fetchTradingPairs_refetch:
  assumes "\<not> truthy (fst (getCachedData (pairsKey coinId) w))"
  shows "\<exists>es. issued w (snd (fetchTradingPairs E coinId w)) = Fetched (pairsUrl E coinId) # es"
proof -
  obtain es where "trace (snd (requestJson E (pairsUrl E coinId) ''Failed to fetch trading pairs''
       (snd (getCachedData (pairsKey coinId) w)))) =
     trace (snd (getCachedData (pairsKey coinId) w)) @ Fetched (pairsUrl E coinId) # es"
    using requestJson_frame(3) by blast
  then have "trace (snd (fetchTradingPairs E coinId w)) =
     trace (snd (getCachedData (pairsKey coinId) w)) @ Fetched (pairsUrl E coinId) # es"
    using assms
    by (auto simp: fetchTradingPairs_def split_def Let_def setCachedData_def
        split: prod.splits sum.splits)
  then show ?thesis using issued_after_get by blast
qed

lemma fetchPriceHistory_fallback:
  assumes "\<not> truthy (fst (getCachedData (historyKey ident tf cmp) w))"
    and "fetchFails E (historyUrl E ident tf cmp) (snd (getCachedData (historyKey ident tf cmp) w))"
  shows "fetchPriceHistory E ident tf cmp w =
           generateMockChartData E tf
             (snd (requestJson E (historyUrl E ident tf cmp) ''Failed to fetch price history''
                (snd (getCachedData (historyKey ident tf cmp) w))))"
    and "cache (snd (fetchPriceHistory E ident tf cmp w)) =
           cache (snd (getCachedData (historyKey ident tf cmp) w))"
proof -
  from requestJson_fails [OF assms(2)] obtain e where
    e: "fst (requestJson E (historyUrl E ident tf cmp) ''Failed to fetch price history''
       (snd (getCachedData (historyKey ident tf cmp) w))) = Inl e" by blast
  then show eq: "fetchPriceHistory E ident tf cmp w =
           generateMockChartData E tf
             (snd (requestJson E (historyUrl E ident tf cmp) ''Failed to fetch price history''
                (snd (getCachedData (historyKey ident tf cmp) w))))"
    using assms(1)
    by (auto simp: fetchPriceHistory_def split_def Let_def split: prod.splits sum.splits)
  show "cache (snd (fetchPriceHistory E ident tf cmp w)) =
           cache (snd (getCachedData (historyKey ident tf cmp) w))"
    by (simp add: eq generateMockChartData_frame(1) requestJson_frame(1))
qed

lemma fetchPriceHistory_refetch:
  assumes "\<not> truthy (fst (getCachedData (historyKey ident tf cmp) w))"
  shows "\<exists>es. issued w (snd (fetchPriceHistory E ident tf cmp w)) =
           Fetched (historyUrl E ident tf cmp) # es"
proof -
  obtain es where "trace (snd (requestJson E (historyUrl E ident tf cmp)
       ''Failed to fetch price history'' (snd (getCachedData (historyKey ident tf cmp) w)))) =
     trace (snd (getCachedData (historyKey ident tf cmp) w)) @
       Fetched (historyUrl E ident tf cmp) # es"
    using requestJson_frame(3) by blast
  then have "trace (snd (fetchPriceHistory E ident tf cmp w)) =
     trace (snd (getCachedData (historyKey ident tf cmp) w)) @
       Fetched (historyUrl E ident tf cmp) # es"
    using assms
    by (auto simp: fetchPriceHistory_def split_def Let_def setCachedData_def
        generateMockChartData_frame(2) split: prod.splits sum.splits)
  then show ?thesis using issued_after_get by blast
qed

lemma fetchCandlestickData_fallback:
  assumes "\<not> truthy (fst (getCachedData (candlestickKey ident tf) w))"
    and "fetchFails E (candlestickUrl E ident tf) (snd (getCachedData (candlestickKey ident tf) w))"
  shows "fetchCandlestickData E ident tf w =
           generateMockCandlestickData E tf
             (snd (requestJson E (candlestickUrl E ident tf) ''Failed to fetch candlestick data''
                (snd (getCachedData (candlestickKey ident tf) w))))"
    and "cache (snd (fetchCandlestickData E ident tf w)) =
           cache (snd (getCachedData (candlestickKey ident tf) w))"
proof -
  from requestJson_fails [OF assms(2)] obtain e where
    e: "fst (requestJson E (candlestickUrl E ident tf) ''Failed to fetch candlestick data''
       (snd (getCachedData (candlestickKey ident tf) w))) = Inl e" by blast
  then show eq: "fetchCandlestickData E ident tf w =
           generateMockCandlestickData E tf
             (snd (requestJson E (candlestickUrl E ident tf) ''Failed to fetch candlestick data''
                (snd (getCachedData (candlestickKey ident tf) w))))"
    using assms(1)
    by (auto simp: fetchCandlestickData_def split_def Let_def split: prod.splits sum.splits)
  show "cache (snd (fetchCandlestickData E ident tf w)) =
           cache (snd (getCachedData (candlestickKey ident tf) w))"
    by (simp add: eq generateMockCandlestickData_frame(1) requestJson_frame(1))
qed

lemma fetchCandlestickData_refetch:
  assumes "\<not> truthy (fst (getCachedData (candlestickKey ident tf) w))"
  shows "\<exists>es. issued w (snd (fetchCandlestickData E ident tf w)) =
           Fetched (candlestickUrl E ident tf) # es"
proof -
  let ?w2 = "snd (requestJson E (candlestickUrl E ident tf)
       ''Failed to fetch candlestick data'' (snd (getCachedData (candlestickKey ident tf) w)))"
  obtain es where es: "trace ?w2 =
     trace (snd (getCachedData (candlestickKey ident tf) w)) @
       Fetched (candlestickUrl E ident tf) # es"
    using requestJson_frame(3) by blast
  have "trace (snd (fetchCandlestickData E ident tf w)) = trace ?w2"
    using assms candlesOf_frame [of E _ ?w2]
    by (auto simp: fetchCandlestickData_def split_def Let_def setCachedData_def
        generateMockCandlestickData_frame(2) split: prod.splits sum.splits)
  with es show ?thesis using issued_after_get by metis
qed

text \<open>
  After a lookup that fell back to synthetic data, the next identical lookup, at whatever
  time and whatever the network then answers, starts with a request to the network.
\<close>

lemma fetchCryptocurrencies_fallback_then_refetch:
  assumes "\<not> truthy (fst (getCachedData (cryptosKey ids) w))"
    and "fetchFails E (cryptosUrl E ids) (snd (getCachedData (cryptosKey ids) w))"
    and "cache w' = cache (snd (fetchCryptocurrencies E ids w))"
  shows "\<exists>es. issued w' (snd (fetchCryptocurrencies E' ids w')) = Fetched (cryptosUrl E' ids) # es"
proof -
  have "cache w' = cache (snd (getCachedData (cryptosKey ids) w))"
    using assms(3) fetchCryptocurrencies_fallback(2) [OF assms(1,2)] by simp
  then have "\<not> truthy (fst (getCachedData (cryptosKey ids) w'))"
    by (rule getCachedData_miss_again [OF assms(1)])
  then show ?thesis by (rule fetchCryptocurrencies_refetch)
qed

lemma fetchDetailedCoinData_fallback_then_refetch:
  assumes "\<not> truthy (fst (getCachedData (detailedKey ident) w))"
    and "fetchFails E (detailedUrl E ident) (snd (getCachedData (detailedKey ident) w))"
    and "cache w' = cache (snd (fetchDetailedCoinData E ident w))"
  shows "\<exists>es. issued w' (snd (fetchDetailedCoinData E' ident w')) = Fetched (detailedUrl E' ident) # es"
proof -
  have "cache w' = cache (snd (getCachedData (detailedKey ident) w))"
    using assms(3) fetchDetailedCoinData_fallback(2) [OF assms(1,2)] by simp
  then have "\<not> truthy (fst (getCachedData (detailedKey ident) w'))"
    by (rule getCachedData_miss_again [OF assms(1)])
  then show ?thesis by (rule fetchDetailedCoinData_refetch)
qed

lemma fetchExchanges_fallback_then_refetch:
  assumes "\<not> truthy (fst (getCachedData (exchangesKey) w))"
    and "fetchFails E (exchangesUrl E) (snd (getCachedData (exchangesKey) w))"
    and "cache w' = cache (snd (fetchExchanges E w))"
  shows "\<exists>es. issued w' (snd (fetchExchanges E' w')) = Fetched (exchangesUrl E') # es"
proof -
  have "cache w' = cache (snd (getCachedData (exchangesKey) w))"
    using assms(3) fetchExchanges_fallback(2) [OF assms(1,2)] by simp
  then have "\<not> truthy (fst (getCachedData (exchangesKey) w'))"
    by (rule getCachedData_miss_again [OF assms(1)])
  then show ?thesis by (rule fetchExchanges_refetch)
qed

lemma fetchTradingPairs_fallback_then_refetch:
  assumes "\<not> truthy (fst (getCachedData (pairsKey coinId) w))"
    and "fetchFails E (pairsUrl E coinId) (snd (getCachedData (pairsKey coinId) w))"
    and "cache w' = cache (snd (fetchTradingPairs E coinId w))"
  shows "\<exists>es. issued w' (snd (fetchTradingPairs E' coinId w')) = Fetched (pairsUrl E' coinId) # es"
proof -
  have "cache w' = cache (snd (getCachedData (pairsKey coinId) w))"
    using assms(3) fetchTradingPairs_fallback(2) [OF assms(1,2)] by simp
  then have "\<not> truthy (fst (getCachedData (pairsKey coinId) w'))"
    by (rule getCachedData_miss_again [OF assms(1)])
  then show ?thesis by (rule fetchTradingPairs_refetch)
qed

lemma fetchPriceHistory_fallback_then_refetch:
  assumes "\<not> truthy (fst (getCachedData (historyKey ident tf cmp) w))"
    and "fetchFails E (historyUrl E ident tf cmp) (snd (getCachedData (historyKey ident tf cmp) w))"
    and "cache w' = cache (snd (fetchPriceHistory E ident tf cmp w))"
  shows "\<exists>es. issued w' (snd (fetchPriceHistory E' ident tf cmp w')) = Fetched (historyUrl E' ident tf cmp) # es"
proof -
  have "cache w' = cache (snd (getCachedData (historyKey ident tf cmp) w))"
    using assms(3) fetchPriceHistory_fallback(2) [OF assms(1,2)] by simp
  then have "\<not> truthy (fst (getCachedData (historyKey ident tf cmp) w'))"
    by (rule getCachedData_miss_again [OF assms(1)])
  then show ?thesis by (rule fetchPriceHistory_refetch)
qed

lemma fetchCandlestickData_fallback_then_refetch:
  assumes "\<not> truthy (fst (getCachedData (candlestickKey ident tf) w))"
    and "fetchFails E (candlestickUrl E ident tf) (snd (getCachedData (candlestickKey ident tf) w))"
    and "cache w' = cache (snd (fetchCandlestickData E ident tf w))"
  shows "\<exists>es. issued w' (snd (fetchCandlestickData E' ident tf w')) = Fetched (candlestickUrl E' ident tf) # es"
proof -
  have "cache w' = cache (snd (getCachedData (candlestickKey ident tf) w))"
    using assms(3) fetchCandlestickData_fallback(2) [OF assms(1,2)] by simp
  then have "\<not> truthy (fst (getCachedData (candlestickKey ident tf) w'))"
    by (rule getCachedData_miss_again [OF assms(1)])
  then show ?thesis by (rule fetchCandlestickData_refetch)
qed

subsection \<open>Structural validity of the mock market data\<close>

lemma placeholder_populated:
  "populated cryptoCurrencyRequired (Obj
     [(''id'', a), (''symbol'', b), (''name'', c), (''current_price'', Num p1),
      (''price_change_percentage_24h'', Num p2), (''price_change_percentage_7d'', Num p3),
      (''price_change_percentage_30d'', Num p4), (''market_cap'', Num p5),
      (''market_cap_rank'', Num p6), (''fully_diluted_valuation'', Num p7),
      (''total_volume'', Num p8), (''circulating_supply'', Num p9), (''total_supply'', Num p10),
      (''max_supply'', m), (''ath'', Num p11), (''ath_date'', Str d1), (''atl'', Num p12),
      (''atl_date'', Str d2), (''image'', Str i), (''last_updated'', Str u)]) =
   (a \<noteq> Undefined \<and> b \<noteq> Undefined \<and> c \<noteq> Undefined)"
  by (simp add: populated_def cryptoCurrencyRequired_def)

lemma profile_populated:
  assumes "map_of mockData ident = Some crypto"
  shows "populated cryptoCurrencyRequired (Obj (crypto @ [(''last_updated'', Str u)]))"
proof -
  from assms have "ident = ''bitcoin'' \<or> ident = ''ethereum'' \<or> ident = ''solana''"
    by (simp add: mockData_def split: if_splits)
  then show ?thesis
  proof (elim disjE)
    assume "ident = ''bitcoin''"
    with assms have "crypto = snd (mockData ! 0)" by (simp add: mockData_def)
    then show ?thesis by (simp add: mockData_def populated_def cryptoCurrencyRequired_def)
  next
    assume "ident = ''ethereum''"
    with assms have "crypto = snd (mockData ! 1)" by (simp add: mockData_def)
    then show ?thesis by (simp add: mockData_def populated_def cryptoCurrencyRequired_def)
  next
    assume "ident = ''solana''"
    with assms have "crypto = snd (mockData ! 2)" by (simp add: mockData_def)
    then show ?thesis by (simp add: mockData_def populated_def cryptoCurrencyRequired_def)
  qed
qed

lemma generateMockData_populated:
  assumes "set ids \<inter> set objectPrototypeKeys = {}"
  shows "list_all (populated cryptoCurrencyRequired) (elems (generateMockData E ids w))"
proof -
  have "populated cryptoCurrencyRequired
      (case map_of mockData ident of
         Some crypto \<Rightarrow> Obj (crypto @ [(''last_updated'', Str (toISOString E (now w)))])
       | None \<Rightarrow>
           if ident \<in> set objectPrototypeKeys
           then Obj [(''last_updated'', Str (toISOString E (now w)))]
           else Obj
             [(''id'', Str ident),
              (''symbol'', Str (toUpperCase E (take 3 ident))),
              (''name'', Str (toUpperCase E (take 1 ident) @ drop 1 ident)),
              (''current_price'', Num 1),
              (''price_change_percentage_24h'', Num 0),
              (''price_change_percentage_7d'', Num 0),
              (''price_change_percentage_30d'', Num 0),
              (''market_cap'', Num 1000000),
              (''market_cap_rank'', Num 999),
              (''fully_diluted_valuation'', Num 1000000),
              (''total_volume'', Num 100000),
              (''circulating_supply'', Num 1000000),
              (''total_supply'', Num 1000000),
              (''max_supply'', Num 1000000),
              (''ath'', Num 2),
              (''ath_date'', Str (toISOString E (now w))),
              (''atl'', Num 0.5),
              (''atl_date'', Str (toISOString E (now w))),
              (''image'', Str (''https://via.placeholder.com/32x32/6366f1/ffffff?text=''
                 @ toUpperCase E (take 1 ident))),
              (''last_updated'', Str (toISOString E (now w)))])"
    if "ident \<in> set ids" for ident
  proof (cases "map_of mockData ident")
    case None
    moreover have "ident \<notin> set objectPrototypeKeys" using that assms by blast
    ultimately show ?thesis by (simp only: option.case if_False placeholder_populated) simp
  next
    case (Some crypto)
    then show ?thesis by (simp only: option.case profile_populated)
  qed
  then show ?thesis
    by (simp add: generateMockData_def elems_def list_all_iff)
qed

lemma offlineEnv_fails: "fetchFails offlineEnv url w"
proof -
  have "\<forall>tr. retryable (net offlineEnv tr url)"
    by (simp add: offlineEnv_def constantEnv_def retryable_def)
  from loop_result [OF this, of 0 3 w] show ?thesis
    by (simp add: fetchFails_def fetchWithRetry_def offlineEnv_def constantEnv_def)
qed

text \<open>
  C3 (the code departs from it). With the network down, the market listing for the
  identifier \<open>constructor\<close> is an entity that has only \<open>last_updated\<close>: \<open>mockData[id]\<close>
  finds the inherited \<open>Object.prototype.constructor\<close>, which is truthy, so the placeholder
  branch is skipped and the spread copies nothing. The entity has no \<open>id\<close>, \<open>symbol\<close>,
  \<open>name\<close> or \<open>current_price\<close>; the coin-detail lookup for the same identifier has no \<open>id\<close>
  and a \<open>NaN\<close> price change.
\<close>

theorem fallback_inherited_key:
  "fst (fetchCryptocurrencies offlineEnv [''constructor''] emptyWorld) =
     Arr [Obj [(''last_updated'', Str ''1970-01-01T00:00:00.000Z'')]] \<and>
   \<not> populated cryptoCurrencyRequired (Obj [(''last_updated'', Str ''1970-01-01T00:00:00.000Z'')]) \<and>
   field ''id'' (fst (fetchDetailedCoinData offlineEnv ''constructor'' emptyWorld)) = Undefined \<and>
   field ''price_change_24h_in_currency''
     (field ''market_data'' (fst (fetchDetailedCoinData offlineEnv ''constructor'' emptyWorld)))
     = Obj [(''usd'', NaN)]"
proof -
  have miss: "\<not> truthy (fst (getCachedData key emptyWorld))" for key
    by (simp add: emptyWorld_miss)
  have mock: "generateMockData offlineEnv [''constructor''] w =
      Arr [Obj [(''last_updated'', Str ''1970-01-01T00:00:00.000Z'')]]" for w
    by (simp add: generateMockData_def mockData_def objectPrototypeKeys_def offlineEnv_def
        constantEnv_def)
  have a: "fst (fetchCryptocurrencies offlineEnv [''constructor''] emptyWorld) =
      Arr [Obj [(''last_updated'', Str ''1970-01-01T00:00:00.000Z'')]]"
    using fetchCryptocurrencies_fallback(1) [OF miss offlineEnv_fails] by (simp add: mock)
  have b: "\<not> populated cryptoCurrencyRequired
      (Obj [(''last_updated'', Str ''1970-01-01T00:00:00.000Z'')])"
    by (simp add: populated_def cryptoCurrencyRequired_def)
  have d: "fst (fetchDetailedCoinData offlineEnv ''constructor'' emptyWorld) =
      generateMockDetailedData offlineEnv ''constructor''
        (snd (fetchDetailedCoinData offlineEnv ''constructor'' emptyWorld))"
    by (rule fetchDetailedCoinData_fallback(1) [OF miss offlineEnv_fails])
  have c: "field ''id'' (fst (fetchDetailedCoinData offlineEnv ''constructor'' emptyWorld)) = Undefined"
    by (subst d) (simp add: generateMockDetailedData_def mock elemAt_def ownProps_def field_def)
  have e: "field ''price_change_24h_in_currency''
     (field ''market_data'' (fst (fetchDetailedCoinData offlineEnv ''constructor'' emptyWorld)))
     = Obj [(''usd'', NaN)]"
    by (subst d)
       (simp add: generateMockDetailedData_def mock elemAt_def ownProps_def field_def times_def)
  from a b c e show ?thesis by blast
qed

subsection \<open>Malformed payloads\<close>

lemma chartDataOf_no_prices:
  assumes "\<forall>xs. field ''prices'' payload \<noteq> Arr xs"
  shows "chartDataOf payload = Inl TypeError"
proof (cases "getProp payload ''prices''")
  case (Inl e)
  then have "e = TypeError" by (simp add: getProp_def split: js.splits)
  with Inl show ?thesis by (simp add: chartDataOf_def)
next
  case (Inr prices)
  then have "prices = field ''prices'' payload" by (simp add: getProp_def split: js.splits)
  with assms have "asArray prices = Inl TypeError"
    by (cases "field ''prices'' payload") (auto simp: asArray_def)
  with Inr show ?thesis by (simp add: chartDataOf_def)
qed

text \<open>
  C6 (as the code has it). When the fetch succeeds and the payload has no \<open>prices\<close>
  array, the price-history lookup returns the synthetic series and caches nothing; so
  does the candlestick lookup when the payload is no array. When the payload is an
  object without \<open>tickers\<close>, the trading-pairs lookup does not fall back:
  \<open>data.tickers || []\<close> makes it return the empty list, which it caches for 60 s; only
  a payload of \<open>null\<close>, on which reading \<open>tickers\<close> throws, yields the synthetic pairs.
  The market-listing, coin-detail and exchange lookups read no field: they return and
  cache the payload as it is. No lookup lets an exception escape: each is a total
  function to a value.
\<close>

theorem malformed_payload:
  "(\<forall>payload w2.
      \<not> truthy (fst (getCachedData (historyKey ident tf cmp) w)) \<and>
      requestJson E (historyUrl E ident tf cmp) ''Failed to fetch price history''
        (snd (getCachedData (historyKey ident tf cmp) w)) = (Inr payload, w2) \<and>
      (\<forall>xs. field ''prices'' payload \<noteq> Arr xs) \<longrightarrow>
      fetchPriceHistory E ident tf cmp w = generateMockChartData E tf w2 \<and>
      cache (snd (fetchPriceHistory E ident tf cmp w)) =
        cache (snd (getCachedData (historyKey ident tf cmp) w))) \<and>
   (\<forall>kvs w2.
      \<not> truthy (fst (getCachedData (pairsKey coinId) w)) \<and>
      requestJson E (pairsUrl E coinId) ''Failed to fetch trading pairs''
        (snd (getCachedData (pairsKey coinId) w)) = (Inr (Obj kvs), w2) \<and>
      map_of kvs ''tickers'' = None \<longrightarrow>
      fetchTradingPairs E coinId w =
        (Arr [], setCachedData (pairsKey coinId) (Arr []) 60000 w2) \<and>
      cache (snd (fetchTradingPairs E coinId w)) (pairsKey coinId) =
        Some \<lparr>data = Arr [], timestamp = now w2, ttl = 60000\<rparr>) \<and>
   (\<forall>w2.
      \<not> truthy (fst (getCachedData (pairsKey coinId) w)) \<and>
      requestJson E (pairsUrl E coinId) ''Failed to fetch trading pairs''
        (snd (getCachedData (pairsKey coinId) w)) = (Inr Null, w2) \<longrightarrow>
      fetchTradingPairs E coinId w = (generateMockTradingPairs E coinId w2, w2) \<and>
      cache w2 = cache (snd (getCachedData (pairsKey coinId) w))) \<and>
   (\<forall>payload w2.
      \<not> truthy (fst (getCachedData (candlestickKey ident tf) w)) \<and>
      requestJson E (candlestickUrl E ident tf) ''Failed to fetch candlestick data''
        (snd (getCachedData (candlestickKey ident tf) w)) = (Inr payload, w2) \<and>
      (\<forall>rows. payload \<noteq> Arr rows) \<longrightarrow>
      fetchCandlestickData E ident tf w = generateMockCandlestickData E tf w2 \<and>
      cache (snd (fetchCandlestickData E ident tf w)) =
        cache (snd (getCachedData (candlestickKey ident tf) w))) \<and>
   (\<forall>payload w2.
      \<not> truthy (fst (getCachedData (cryptosKey ids) w)) \<and>
      requestJson E (cryptosUrl E ids) ''Failed to fetch data''
        (snd (getCachedData (cryptosKey ids) w)) = (Inr payload, w2) \<longrightarrow>
      fetchCryptocurrencies E ids w = (payload, setCachedData (cryptosKey ids) payload 30000 w2)) \<and>
   (\<forall>payload w2.
      \<not> truthy (fst (getCachedData (detailedKey ident) w)) \<and>
      requestJson E (detailedUrl E ident) ''Failed to fetch detailed data''
        (snd (getCachedData (detailedKey ident) w)) = (Inr payload, w2) \<longrightarrow>
      fetchDetailedCoinData E ident w =
        (payload, setCachedData (detailedKey ident) payload 60000 w2)) \<and>
   (\<forall>payload w2.
      \<not> truthy (fst (getCachedData exchangesKey w)) \<and>
      requestJson E (exchangesUrl E) ''Failed to fetch exchanges''
        (snd (getCachedData exchangesKey w)) = (Inr payload, w2) \<longrightarrow>
      fetchExchanges E w = (payload, setCachedData exchangesKey payload 300000 w2))"
proof (intro conjI allI impI)
  fix payload w2
  assume h: "\<not> truthy (fst (getCachedData (historyKey ident tf cmp) w)) \<and>
      requestJson E (historyUrl E ident tf cmp) ''Failed to fetch price history''
        (snd (getCachedData (historyKey ident tf cmp) w)) = (Inr payload, w2) \<and>
      (\<forall>xs. field ''prices'' payload \<noteq> Arr xs)"
  then have parse: "chartDataOf payload = Inl TypeError"
    by (simp add: chartDataOf_no_prices)
  with h show eq: "fetchPriceHistory E ident tf cmp w = generateMockChartData E tf w2"
    by (simp add: fetchPriceHistory_def split_def)
  have "cache w2 = cache (snd (getCachedData (historyKey ident tf cmp) w))"
    using h requestJson_frame(1) [of E "historyUrl E ident tf cmp"
        "''Failed to fetch price history''" "snd (getCachedData (historyKey ident tf cmp) w)"]
    by simp
  then show "cache (snd (fetchPriceHistory E ident tf cmp w)) =
        cache (snd (getCachedData (historyKey ident tf cmp) w))"
    by (simp add: eq generateMockChartData_frame(1))
next
  fix kvs w2
  assume h: "\<not> truthy (fst (getCachedData (pairsKey coinId) w)) \<and>
      requestJson E (pairsUrl E coinId) ''Failed to fetch trading pairs''
        (snd (getCachedData (pairsKey coinId) w)) = (Inr (Obj kvs), w2) \<and>
      map_of kvs ''tickers'' = None"
  then show eq: "fetchTradingPairs E coinId w =
        (Arr [], setCachedData (pairsKey coinId) (Arr []) 60000 w2)"
    by (simp add: fetchTradingPairs_def split_def getProp_def field_def orElse_def)
  show "cache (snd (fetchTradingPairs E coinId w)) (pairsKey coinId) =
        Some \<lparr>data = Arr [], timestamp = now w2, ttl = 60000\<rparr>"
    by (simp add: eq setCachedData_def)
next
  fix w2
  assume h: "\<not> truthy (fst (getCachedData (pairsKey coinId) w)) \<and>
      requestJson E (pairsUrl E coinId) ''Failed to fetch trading pairs''
        (snd (getCachedData (pairsKey coinId) w)) = (Inr Null, w2)"
  then show "fetchTradingPairs E coinId w = (generateMockTradingPairs E coinId w2, w2)"
    by (simp add: fetchTradingPairs_def split_def getProp_def)
  show "cache w2 = cache (snd (getCachedData (pairsKey coinId) w))"
    using h requestJson_frame(1) [of E "pairsUrl E coinId"
        "''Failed to fetch trading pairs''" "snd (getCachedData (pairsKey coinId) w)"]
    by simp
next
  fix payload w2
  assume h: "\<not> truthy (fst (getCachedData (candlestickKey ident tf) w)) \<and>
      requestJson E (candlestickUrl E ident tf) ''Failed to fetch candlestick data''
        (snd (getCachedData (candlestickKey ident tf) w)) = (Inr payload, w2) \<and>
      (\<forall>rows. payload \<noteq> Arr rows)"
  then have "asArray payload = Inl TypeError"
    by (cases payload) (auto simp: asArray_def)
  with h show eq: "fetchCandlestickData E ident tf w = generateMockCandlestickData E tf w2"
    by (simp add: fetchCandlestickData_def split_def)
  have "cache w2 = cache (snd (getCachedData (candlestickKey ident tf) w))"
    using h requestJson_frame(1) [of E "candlestickUrl E ident tf"
        "''Failed to fetch candlestick data''" "snd (getCachedData (candlestickKey ident tf) w)"]
    by simp
  then show "cache (snd (fetchCandlestickData E ident tf w)) =
        cache (snd (getCachedData (candlestickKey ident tf) w))"
    by (simp add: eq generateMockCandlestickData_frame(1))
next
  fix payload w2
  assume "\<not> truthy (fst (getCachedData (cryptosKey ids) w)) \<and>
      requestJson E (cryptosUrl E ids) ''Failed to fetch data''
        (snd (getCachedData (cryptosKey ids) w)) = (Inr payload, w2)"
  then show "fetchCryptocurrencies E ids w =
      (payload, setCachedData (cryptosKey ids) payload 30000 w2)"
    by (simp add: fetchCryptocurrencies_def split_def)
next
  fix payload w2
  assume "\<not> truthy (fst (getCachedData (detailedKey ident) w)) \<and>
      requestJson E (detailedUrl E ident) ''Failed to fetch detailed data''
        (snd (getCachedData (detailedKey ident) w)) = (Inr payload, w2)"
  then show "fetchDetailedCoinData E ident w =
      (payload, setCachedData (detailedKey ident) payload 60000 w2)"
    by (simp add: fetchDetailedCoinData_def split_def)
next
  fix payload w2
  assume "\<not> truthy (fst (getCachedData exchangesKey w)) \<and>
      requestJson E (exchangesUrl E) ''Failed to fetch exchanges''
        (snd (getCachedData exchangesKey w)) = (Inr payload, w2)"
  then show "fetchExchanges E w = (payload, setCachedData exchangesKey payload 300000 w2)"
    by (simp add: fetchExchanges_def split_def)
qed

theorem malformed_payload_witness:
  "(\<forall>xs. field ''prices'' (Obj []) \<noteq> Arr xs) \<and>
   fetchPriceHistory (servingEnv (Obj [])) ''bitcoin'' Tf_7d Usd emptyWorld =
     generateMockChartData (servingEnv (Obj [])) Tf_7d
       (emptyWorld\<lparr>trace := [Fetched (historyUrl (servingEnv (Obj [])) ''bitcoin'' Tf_7d Usd)]\<rparr>) \<and>
   cache (snd (fetchPriceHistory (servingEnv (Obj [])) ''bitcoin'' Tf_7d Usd emptyWorld)) =
     cache emptyWorld \<and>
   map_of ([] :: (string \<times> js) list) ''tickers'' = None \<and>
   fetchTradingPairs (servingEnv (Obj [])) ''bitcoin'' emptyWorld =
     (Arr [], setCachedData (pairsKey ''bitcoin'') (Arr []) 60000
        (emptyWorld\<lparr>trace := [Fetched (pairsUrl (servingEnv (Obj [])) ''bitcoin'')]\<rparr>)) \<and>
   fetchTradingPairs (servingEnv Null) ''bitcoin'' emptyWorld =
     (generateMockTradingPairs (servingEnv Null) ''bitcoin''
        (emptyWorld\<lparr>trace := [Fetched (pairsUrl (servingEnv Null) ''bitcoin'')]\<rparr>),
      emptyWorld\<lparr>trace := [Fetched (pairsUrl (servingEnv Null) ''bitcoin'')]\<rparr>) \<and>
   (\<forall>rows. Obj [] \<noteq> Arr rows) \<and>
   fetchCandlestickData (servingEnv (Obj [])) ''bitcoin'' Tf_7d emptyWorld =
     generateMockCandlestickData (servingEnv (Obj [])) Tf_7d
       (emptyWorld\<lparr>trace := [Fetched (candlestickUrl (servingEnv (Obj [])) ''bitcoin'' Tf_7d)]\<rparr>) \<and>
   fetchCryptocurrencies (servingEnv (Obj [])) [''bitcoin''] emptyWorld =
     (Obj [], setCachedData (cryptosKey [''bitcoin'']) (Obj []) 30000
        (emptyWorld\<lparr>trace := [Fetched (cryptosUrl (servingEnv (Obj [])) [''bitcoin''])]\<rparr>)) \<and>
   fetchDetailedCoinData (servingEnv (Obj [])) ''bitcoin'' emptyWorld =
     (Obj [], setCachedData (detailedKey ''bitcoin'') (Obj []) 60000
        (emptyWorld\<lparr>trace := [Fetched (detailedUrl (servingEnv (Obj [])) ''bitcoin'')]\<rparr>)) \<and>
   fetchExchanges (servingEnv (Obj [])) emptyWorld =
     (Obj [], setCachedData exchangesKey (Obj []) 300000
        (emptyWorld\<lparr>trace := [Fetched (exchangesUrl (servingEnv (Obj [])))]\<rparr>))"
proof -
  have miss: "\<not> truthy (fst (getCachedData key emptyWorld))" for key
    by (simp add: emptyWorld_miss)
  have req: "requestJson (servingEnv payload) url msg (snd (getCachedData key emptyWorld)) =
      (Inr payload, emptyWorld\<lparr>trace := [Fetched url]\<rparr>)" for payload url msg key
    by (simp add: emptyWorld_miss servingEnv_request) (simp add: emptyWorld_def)
  have nop: "\<forall>xs. field ''prices'' (Obj []) \<noteq> Arr xs"
    by (simp add: field_def)
  have noa: "\<forall>rows. Obj [] \<noteq> Arr rows"
    by simp
  have same: "cache (snd (getCachedData key emptyWorld)) = cache emptyWorld" for key
    by (simp add: emptyWorld_miss)
  note a = malformed_payload [of "''bitcoin''" Tf_7d Usd emptyWorld "servingEnv (Obj [])"
      "''bitcoin''" "[''bitcoin'']"]
  note b = malformed_payload [of "''bitcoin''" Tf_7d Usd emptyWorld "servingEnv Null"
      "''bitcoin''" "[''bitcoin'']"]
  have h1: "fetchPriceHistory (servingEnv (Obj [])) ''bitcoin'' Tf_7d Usd emptyWorld =
     generateMockChartData (servingEnv (Obj [])) Tf_7d
       (emptyWorld\<lparr>trace := [Fetched (historyUrl (servingEnv (Obj [])) ''bitcoin'' Tf_7d Usd)]\<rparr>)"
    and h2: "cache (snd (fetchPriceHistory (servingEnv (Obj [])) ''bitcoin'' Tf_7d Usd emptyWorld)) =
     cache emptyWorld"
    using a miss req nop same by metis+
  have h3: "fetchTradingPairs (servingEnv (Obj [])) ''bitcoin'' emptyWorld =
     (Arr [], setCachedData (pairsKey ''bitcoin'') (Arr []) 60000
        (emptyWorld\<lparr>trace := [Fetched (pairsUrl (servingEnv (Obj [])) ''bitcoin'')]\<rparr>))"
    using a miss req [of "Obj []"] by (metis map_of.simps(1))
  have h4: "fetchTradingPairs (servingEnv Null) ''bitcoin'' emptyWorld =
     (generateMockTradingPairs (servingEnv Null) ''bitcoin''
        (emptyWorld\<lparr>trace := [Fetched (pairsUrl (servingEnv Null) ''bitcoin'')]\<rparr>),
      emptyWorld\<lparr>trace := [Fetched (pairsUrl (servingEnv Null) ''bitcoin'')]\<rparr>)"
    using b miss req [of Null] by metis
  have h5: "fetchCandlestickData (servingEnv (Obj [])) ''bitcoin'' Tf_7d emptyWorld =
     generateMockCandlestickData (servingEnv (Obj [])) Tf_7d
       (emptyWorld\<lparr>trace := [Fetched (candlestickUrl (servingEnv (Obj [])) ''bitcoin'' Tf_7d)]\<rparr>)"
    using a miss req [of "Obj []"] noa by metis
  have h6: "fetchCryptocurrencies (servingEnv (Obj [])) [''bitcoin''] emptyWorld =
     (Obj [], setCachedData (cryptosKey [''bitcoin'']) (Obj []) 30000
        (emptyWorld\<lparr>trace := [Fetched (cryptosUrl (servingEnv (Obj [])) [''bitcoin''])]\<rparr>))"
    using a miss req [of "Obj []"] by metis
  have h7: "fetchDetailedCoinData (servingEnv (Obj [])) ''bitcoin'' emptyWorld =
     (Obj [], setCachedData (detailedKey ''bitcoin'') (Obj []) 60000
        (emptyWorld\<lparr>trace := [Fetched (detailedUrl (servingEnv (Obj [])) ''bitcoin'')]\<rparr>))"
    using a miss req [of "Obj []"] by metis
  have h8: "fetchExchanges (servingEnv (Obj [])) emptyWorld =
     (Obj [], setCachedData exchangesKey (Obj []) 300000
        (emptyWorld\<lparr>trace := [Fetched (exchangesUrl (servingEnv (Obj [])))]\<rparr>))"
    using a miss req [of "Obj []"] by metis
  from nop noa h1 h2 h3 h4 h5 h6 h7 h8 show ?thesis by simp
qed

text \<open>
  C6 as stated fails for the trading pairs: a successful response whose payload is
  \<open>{}\<close> makes the lookup return the empty list, not the synthetic pairs, and store it in
  the cache.
\<close>

theorem missing_tickers_counterexample:
  "fst (fetchTradingPairs (servingEnv (Obj [])) ''bitcoin'' emptyWorld) = Arr [] \<and>
   fst (fetchTradingPairs (servingEnv (Obj [])) ''bitcoin'' emptyWorld) \<noteq>
     generateMockTradingPairs (servingEnv (Obj [])) ''bitcoin''
       (snd (fetchTradingPairs (servingEnv (Obj [])) ''bitcoin'' emptyWorld)) \<and>
   cache (snd (fetchTradingPairs (servingEnv (Obj [])) ''bitcoin'' emptyWorld)) (pairsKey ''bitcoin'') =
     Some \<lparr>data = Arr [], timestamp = 0, ttl = 60000\<rparr>"
proof -
  have run: "fetchTradingPairs (servingEnv (Obj [])) ''bitcoin'' emptyWorld =
     (Arr [], setCachedData (pairsKey ''bitcoin'') (Arr []) 60000
        (emptyWorld\<lparr>trace := [Fetched (pairsUrl (servingEnv (Obj [])) ''bitcoin'')]\<rparr>))"
    by (simp add: fetchTradingPairs_def emptyWorld_miss servingEnv_request getProp_def field_def
        orElse_def) (simp add: emptyWorld_def)
  have differ: "Arr [] \<noteq> generateMockTradingPairs E c w" for E c w
    by (simp add: generateMockTradingPairs_def Let_def)
  have stored: "cache (setCachedData (pairsKey ''bitcoin'') (Arr []) 60000
        (emptyWorld\<lparr>trace := [Fetched (pairsUrl (servingEnv (Obj [])) ''bitcoin'')]\<rparr>))
        (pairsKey ''bitcoin'') = Some \<lparr>data = Arr [], timestamp = 0, ttl = 60000\<rparr>"
    by (simp add: setCachedData_def emptyWorld_def)
  from run differ stored show ?thesis by simp
qed

end
